theory Spec2Isabelle
  imports Complex_Main
begin

section \<open>Conventions of the embedding\<close>

text \<open>
  The program is Python. Its \<^verbatim>\<open>float\<close> values are modelled as \<^typ>\<open>real\<close>: rounding,
  overflow and NaN are outside the model, everything else (the order of the checks, the
  order of the assignments, the exceptions) follows the source line by line.
  A method that assigns attributes takes the object and returns the updated object next to
  its result; a method that assigns nothing is a function of the object alone.
  A raised exception is the \<open>Inl\<close> of a sum; where the source raises after it has already
  assigned, the returned object carries those assignments.
\<close>

datatype py_error = ZeroDivisionError | ValueError | IndexError | KeyError

section \<open>services/battery\_model.py\<close>

datatype battery_health = EXCELLENT | GOOD | FAIR | POOR | CRITICAL

text \<open>The dataclass \<^verbatim>\<open>BatteryStats\<close>. The field \<^verbatim>\<open>cycles\<close> is declared \<^verbatim>\<open>int\<close>, but
  \<^verbatim>\<open>consume_energy\<close> adds \<^verbatim>\<open>0.1\<close> to it, so it holds a float.\<close>

record battery_stats =
  capacity_kwh :: real
  current_charge_kwh :: real
  voltage_v :: real
  current_a :: real
  temperature_c :: real
  cycles :: real
  health :: battery_health
  charging :: bool

text \<open>The remaining attributes of \<^verbatim>\<open>BatteryModel\<close> are assigned once in \<^verbatim>\<open>__init__\<close> and never
  again; \<^verbatim>\<open>consumption_rate\<close> is \<^verbatim>\<open>settings.BATTERY_CONSUMPTION_KWH_PER_KM\<close>.\<close>

definition consumption_rate :: real where
  "consumption_rate = 0.08"

definition regenerative_braking_efficiency :: real where
  "regenerative_braking_efficiency = 0.7"

definition temperature_derate_factor :: real where
  "temperature_derate_factor = 1.0"

definition cycle_degradation :: real where
  "cycle_degradation = 0.0002"

definition BATTERY_CAPACITY_KWH :: real where
  "BATTERY_CAPACITY_KWH = 2.5"

definition ROBOT_SPEED_KMH :: real where
  "ROBOT_SPEED_KMH = 15.0"

text \<open>\<^verbatim>\<open>BatteryModel.__init__\<close>: the battery starts fully charged, the other fields take the
  defaults of the dataclass.\<close>

definition BatteryModel :: "real \<Rightarrow> battery_stats" where
  "BatteryModel cap =
     \<lparr>capacity_kwh = cap, current_charge_kwh = cap, voltage_v = 48.0, current_a = 0.0,
      temperature_c = 25.0, cycles = 0, health = EXCELLENT, charging = False\<rparr>"

text \<open>\<^verbatim>\<open>calculate_consumption\<close>. Python raises \<^verbatim>\<open>ZeroDivisionError\<close> on a float division by
  zero, which here can only be the division by \<^verbatim>\<open>health_factor\<close>.\<close>

definition calculate_consumption ::
  "battery_stats \<Rightarrow> real \<Rightarrow> real \<Rightarrow> real \<Rightarrow> py_error + real" where
  "calculate_consumption b distance_m speed_kmh grade_percent =
     (let distance_km = distance_m / 1000;
          base_consumption = distance_km * consumption_rate;
          speed_factor = 1 + 0.01 * (speed_kmh / 10)\<^sup>2;
          grade_factor = 1 + 0.05 * grade_percent;
          temp_factor = temperature_derate_factor;
          health_factor = 1 + (1000 - cycles b) * cycle_degradation
      in if health_factor = 0 then Inl ZeroDivisionError
         else
           let consumption =
                 base_consumption * speed_factor * grade_factor * temp_factor / health_factor
           in if grade_percent < 0
              then let regen_recovery = - grade_percent * 0.01 * regenerative_braking_efficiency
                   in Inr (consumption * (1 - min regen_recovery 0.5))
              else Inr consumption)"

text \<open>\<^verbatim>\<open>get_percentage\<close>.\<close>

definition get_percentage :: "battery_stats \<Rightarrow> py_error + real" where
  "get_percentage b =
     (if capacity_kwh b = 0 then Inl ZeroDivisionError
      else Inr ((current_charge_kwh b / capacity_kwh b) * 100))"

text \<open>\<^verbatim>\<open>_update_health\<close>: the chain of thresholds, in the order of the source.\<close>

definition update_health :: "battery_stats \<Rightarrow> py_error + battery_stats" where
  "update_health b =
     (if capacity_kwh b = 0 then Inl ZeroDivisionError
      else
        let capacity_retention = current_charge_kwh b / capacity_kwh b
        in if capacity_retention > 0.8 then Inr (b\<lparr>health := EXCELLENT\<rparr>)
           else if capacity_retention > 0.6 then Inr (b\<lparr>health := GOOD\<rparr>)
           else if capacity_retention > 0.4 then Inr (b\<lparr>health := FAIR\<rparr>)
           else if capacity_retention > 0.2 then Inr (b\<lparr>health := POOR\<rparr>)
           else Inr (b\<lparr>health := CRITICAL\<rparr>))"

text \<open>The result dictionaries of \<^verbatim>\<open>consume_energy\<close>: the two failures and the success with
  \<^verbatim>\<open>consumption_kwh\<close>, \<^verbatim>\<open>remaining_kwh\<close> and \<^verbatim>\<open>percentage\<close>.\<close>

datatype consume_result =
    Robot_is_charging
  | Insufficient_battery real real
  | Consumed real real real

fun success :: "consume_result \<Rightarrow> bool" where
  "success Robot_is_charging = False"
| "success (Insufficient_battery required available) = False"
| "success (Consumed consumption remaining percentage) = True"

text \<open>\<^verbatim>\<open>consume_energy\<close>. The charge is reduced before \<^verbatim>\<open>current_a\<close> and the depth of
  discharge are computed, so the two divisions that can raise (by \<^verbatim>\<open>speed_kmh\<close>, by
  \<^verbatim>\<open>capacity_kwh\<close>) raise on an object whose charge is already reduced.\<close>

definition consume_energy ::
  "battery_stats \<Rightarrow> real \<Rightarrow> real \<Rightarrow> real \<Rightarrow> (py_error + consume_result) \<times> battery_stats" where
  "consume_energy b distance_m speed_kmh grade_percent =
     (if charging b then (Inr Robot_is_charging, b)
      else case calculate_consumption b distance_m speed_kmh grade_percent of
        Inl e \<Rightarrow> (Inl e, b)
      | Inr consumption \<Rightarrow>
          if consumption > current_charge_kwh b
          then (Inr (Insufficient_battery consumption (current_charge_kwh b)), b)
          else
            let b1 = b\<lparr>current_charge_kwh := current_charge_kwh b - consumption\<rparr>
            in if distance_m > 0 \<and> speed_kmh = 0 then (Inl ZeroDivisionError, b1)
               else
                 let b2 = b1\<lparr>current_a :=
                            (if distance_m > 0
                             then (consumption * 1000) / (distance_m / speed_kmh * 3600)
                             else 0)\<rparr>
                 in if capacity_kwh b2 = 0 then (Inl ZeroDivisionError, b2)
                    else
                      let depth_of_discharge = 1 - (current_charge_kwh b2 / capacity_kwh b2);
                          b3 = (if depth_of_discharge > 0.8
                                then b2\<lparr>cycles := cycles b2 + 0.1\<rparr> else b2)
                      in (case update_health b3 of
                            Inl e \<Rightarrow> (Inl e, b3)
                          | Inr b4 \<Rightarrow>
                              (case get_percentage b4 of
                                 Inl e \<Rightarrow> (Inl e, b4)
                               | Inr p \<Rightarrow>
                                   (Inr (Consumed consumption (current_charge_kwh b4) p), b4))))"

text \<open>\<^verbatim>\<open>charge\<close>; the result is the pair \<^verbatim>\<open>charged_kwh\<close>, \<^verbatim>\<open>percentage\<close>.\<close>

definition charge :: "battery_stats \<Rightarrow> real \<Rightarrow> (py_error + real \<times> real) \<times> battery_stats" where
  "charge b energy_kwh =
     (let old_charge = current_charge_kwh b;
          b1 = b\<lparr>current_charge_kwh :=
                  min (current_charge_kwh b + energy_kwh) (capacity_kwh b)\<rparr>;
          b2 = b1\<lparr>charging := (energy_kwh > 0)\<rparr>;
          charged = current_charge_kwh b2 - old_charge
      in case get_percentage b2 of
           Inl e \<Rightarrow> (Inl e, b2)
         | Inr p \<Rightarrow> (Inr (charged, p), b2))"

text \<open>\<^verbatim>\<open>can_complete_route\<close> and \<^verbatim>\<open>estimate_range\<close> assign nothing.\<close>

definition can_complete_route :: "battery_stats \<Rightarrow> real \<Rightarrow> real \<Rightarrow> py_error + bool" where
  "can_complete_route b route_distance_m avg_speed_kmh =
     (case calculate_consumption b route_distance_m avg_speed_kmh 0.0 of
        Inl e \<Rightarrow> Inl e
      | Inr required \<Rightarrow> Inr (required \<le> current_charge_kwh b * 0.9))"

definition estimate_range :: "battery_stats \<Rightarrow> real" where
  "estimate_range b = (current_charge_kwh b / consumption_rate) * 1000"

subsection \<open>Vocabulary for the properties of the battery\<close>

text \<open>The classification as the specification words it: a function of the ratio
  \<^verbatim>\<open>current_charge_kwh / capacity_kwh\<close> alone.\<close>

definition health_classification_spec :: "real \<Rightarrow> battery_health" where
  "health_classification_spec ratio =
     (if ratio > 0.8 then EXCELLENT else if ratio > 0.6 then GOOD
      else if ratio > 0.4 then FAIR else if ratio > 0.2 then POOR else CRITICAL)"

definition charge_invariant :: "battery_stats \<Rightarrow> bool" where
  "charge_invariant b \<longleftrightarrow> 0 \<le> current_charge_kwh b \<and> current_charge_kwh b \<le> capacity_kwh b"

text \<open>Sequences of calls of the two mutating methods. The object after a call is the
  second component of the model's result, whether the call returned or raised.\<close>

datatype battery_op = Consume real real real | Charge real

fun apply_op :: "battery_stats \<Rightarrow> battery_op \<Rightarrow> battery_stats" where
  "apply_op b (Consume d s g) = snd (consume_energy b d s g)"
| "apply_op b (Charge e) = snd (charge b e)"

fun run_ops :: "battery_stats \<Rightarrow> battery_op list \<Rightarrow> battery_stats" where
  "run_ops b [] = b"
| "run_ops b (x # xs) = run_ops (apply_op b x) xs"

text \<open>The arguments for which the consumption formula is not negative: a distance that is
  not negative and a grade of at least \<open>-20\<close> percent (below it \<^verbatim>\<open>grade_factor\<close> is negative);
  a charge call with an amount that is not negative.\<close>

fun op_in_range :: "battery_op \<Rightarrow> bool" where
  "op_in_range (Consume d s g) \<longleftrightarrow> 0 \<le> d \<and> - 20 \<le> g"
| "op_in_range (Charge e) \<longleftrightarrow> 0 \<le> e"

definition sample_ops :: "battery_op list" where
  "sample_ops = [Consume 28000 10 0, Charge 1, Charge 0, Consume 1000 15 (- 3)]"

text \<open>Three concrete batteries, each reached from a new \<^verbatim>\<open>BatteryModel(2.5)\<close> by one call.\<close>

definition charging_battery :: battery_stats where
  "charging_battery = snd (charge (BatteryModel 2.5) 1)"

definition drained_battery :: battery_stats where
  "drained_battery = snd (consume_energy (BatteryModel 2.5) 28000 10 0)"

section \<open>api/websocket\_manager.py\<close>

text \<open>A WebSocket object is an opaque handle, a number here; a robot id is a string. The
  dictionary \<^verbatim>\<open>active_connections\<close> maps a robot id to a Python set of handles.\<close>

type_synonym websocket = nat

record connection_manager =
  active_connections :: "string \<rightharpoonup> websocket set"
  robot_subscriptions :: "string \<rightharpoonup> string"

definition ConnectionManager :: connection_manager where
  "ConnectionManager = \<lparr>active_connections = Map.empty, robot_subscriptions = Map.empty\<rparr>"

text \<open>\<^verbatim>\<open>connect\<close>, after \<^verbatim>\<open>websocket.accept()\<close> has returned (if it raises, nothing is
  assigned).\<close>

definition connect :: "connection_manager \<Rightarrow> websocket \<Rightarrow> string \<Rightarrow> connection_manager" where
  "connect m ws rid =
     (case active_connections m rid of
        None \<Rightarrow> m\<lparr>active_connections := (active_connections m)(rid \<mapsto> insert ws {})\<rparr>
      | Some subscribers \<Rightarrow>
          m\<lparr>active_connections := (active_connections m)(rid \<mapsto> insert ws subscribers)\<rparr>)"

text \<open>\<^verbatim>\<open>disconnect\<close>: \<^verbatim>\<open>discard\<close>, then \<^verbatim>\<open>del\<close> of the entry when the set is empty.\<close>

definition disconnect :: "connection_manager \<Rightarrow> websocket \<Rightarrow> string \<Rightarrow> connection_manager" where
  "disconnect m ws rid =
     (case active_connections m rid of
        None \<Rightarrow> m
      | Some subscribers \<Rightarrow>
          let remaining = subscribers - {ws}
          in if remaining = {}
             then m\<lparr>active_connections := (active_connections m)(rid := None)\<rparr>
             else m\<lparr>active_connections := (active_connections m)(rid \<mapsto> remaining)\<rparr>)"

text \<open>\<^verbatim>\<open>broadcast_robot_state\<close>. Whether \<^verbatim>\<open>send_text\<close> raises on a connection is an input,
  \<open>send_fails\<close>. The result is the set of connections on which \<^verbatim>\<open>send_text\<close> was called and
  the manager after the clean-up loop, which discards the failed connections and does
  nothing else. Connections that are added or removed by other coroutines while this one
  awaits a send are outside the model.\<close>

definition broadcast_robot_state ::
  "connection_manager \<Rightarrow> string \<Rightarrow> (websocket \<Rightarrow> bool) \<Rightarrow> websocket set \<times> connection_manager" where
  "broadcast_robot_state m rid send_fails =
     (case active_connections m rid of
        None \<Rightarrow> ({}, m)
      | Some subscribers \<Rightarrow>
          let disconnected = Set.filter send_fails subscribers
          in (subscribers,
              m\<lparr>active_connections := (active_connections m)(rid \<mapsto> subscribers - disconnected)\<rparr>))"

text \<open>The invariant of the registry: no robot id is mapped to the empty set.\<close>

definition registry_invariant :: "connection_manager \<Rightarrow> bool" where
  "registry_invariant m \<longleftrightarrow> {} \<notin> ran (active_connections m)"

text \<open>One subscriber, handle 1, connected for robot \<^verbatim>\<open>R001\<close> on a new manager.\<close>

definition one_subscriber :: connection_manager where
  "one_subscriber = connect ConnectionManager 1 ''R001''"

section \<open>models/robot\_state.py\<close>

datatype robot_mode =
  IDLE | PICKUP | TRANSIT | DELIVERY | RETURN | CHARGING | EMERGENCY | OFFLINE

type_synonym point = "real \<times> real"

text \<open>The texts that end up in \<^verbatim>\<open>error_message\<close>: the two \<^verbatim>\<open>ValueError\<close> messages of
  \<^verbatim>\<open>start_delivery\<close> (the second with its two formatted numbers) and \<^verbatim>\<open>str(e)\<close> of any
  other exception.\<close>

datatype message =
    Invalid_path
  | Insufficient_battery_for_route real real
  | Exception_message py_error

text \<open>The dataclass \<^verbatim>\<open>RobotState\<close>. \<^verbatim>\<open>path_index\<close> is only ever assigned 0 and incremented,
  so it is a natural number.\<close>

record robot_state =
  mode :: robot_mode
  current_lat :: real
  current_lon :: real
  battery_percentage :: real
  current_speed_kmh :: real
  target_lat :: "real option"
  target_lon :: "real option"
  current_delivery_id :: "int option"
  path_index :: nat
  total_path :: "point list option"
  distance_traveled_m :: real
  last_update :: real
  obstacle_detected :: bool
  error_message :: "message option"

text \<open>\<^verbatim>\<open>RobotState()\<close>; the default of \<^verbatim>\<open>last_update\<close> is the clock at import time.\<close>

definition RobotState :: "real \<Rightarrow> robot_state" where
  "RobotState import_time =
     \<lparr>mode = IDLE, current_lat = 0.0, current_lon = 0.0, battery_percentage = 100.0,
      current_speed_kmh = 0.0, target_lat = None, target_lon = None,
      current_delivery_id = None, path_index = 0, total_path = None,
      distance_traveled_m = 0.0, last_update = import_time, obstacle_detected = False,
      error_message = None\<rparr>"

section \<open>services/robot\_controller.py\<close>

subsection \<open>The controller object and the tasks of the event loop\<close>

text \<open>An asyncio task is either still pending or done (finished, or cancelled and
  finished). The tasks that \<^verbatim>\<open>asyncio.create_task\<close> has made for a controller are kept in
  creation order in the field \<open>tasks\<close>, which stands for the event loop; the attribute
  \<^verbatim>\<open>movement_task\<close> is \<^verbatim>\<open>None\<close> or a reference to one of them, its position.\<close>

datatype task_state = Pending | Done

record robot_controller =
  robot_id :: string
  state :: robot_state
  battery :: battery_stats
  path :: "point list"
  controller_obstacle_detected :: bool
  emergency_stop_activated :: bool
  current_segment_index :: int
  last_position_update :: real
  simulation_speed :: real
  movement_task :: "nat option"
  is_moving :: bool
  camera_active :: bool
  tasks :: "task_state list"

text \<open>\<^verbatim>\<open>__init__\<close>. The constant attributes \<^verbatim>\<open>speed_limits\<close>, \<^verbatim>\<open>gps_noise\<close> and
  \<^verbatim>\<open>lidar_range\<close> are definitions below or inputs of the movement.\<close>

definition RobotController :: "string \<Rightarrow> real \<Rightarrow> real \<Rightarrow> robot_controller" where
  "RobotController rid import_time now =
     \<lparr>robot_id = rid,
      state = (RobotState import_time)\<lparr>current_lat := 12.9716, current_lon := 77.5946\<rparr>,
      battery = BatteryModel BATTERY_CAPACITY_KWH,
      path = [],
      controller_obstacle_detected = False,
      emergency_stop_activated = False,
      current_segment_index = 0,
      last_position_update = now,
      simulation_speed = 1.0,
      movement_task = None,
      is_moving = False,
      camera_active = False,
      tasks = []\<rparr>"

definition speed_limits :: "(string \<times> real) list" where
  "speed_limits =
     [(''motorway'', 25.0), (''trunk'', 25.0), (''primary'', 20.0), (''secondary'', 18.0),
      (''tertiary'', 15.0), (''residential'', 12.0), (''service'', 8.0),
      (''unclassified'', 10.0), (''path'', 5.0), (''footway'', 5.0), (''default'', 15.0)]"

text \<open>\<^verbatim>\<open>_get_traffic_factor\<close>, as a function of \<^verbatim>\<open>datetime.now().hour\<close>.\<close>

definition get_traffic_factor :: "nat \<Rightarrow> real" where
  "get_traffic_factor hour =
     (if (8 \<le> hour \<and> hour \<le> 10) \<or> (17 \<le> hour \<and> hour \<le> 20) then 0.6
      else if hour \<le> 6 \<or> hour \<ge> 22 then 1.2
      else 1.0)"

text \<open>\<^verbatim>\<open>_get_road_type_speed\<close> on a string (the only call passes a string); the value of
  \<^verbatim>\<open>speed_limits['default']\<close> is 15.0.\<close>

definition get_road_type_speed :: "string \<Rightarrow> real" where
  "get_road_type_speed road_type =
     (case map_of speed_limits road_type of Some v \<Rightarrow> v | None \<Rightarrow> 15.0)"

subsection \<open>Distances\<close>

definition radians :: "real \<Rightarrow> real" where
  "radians x = x * pi / 180"

text \<open>\<^verbatim>\<open>math.atan2\<close>.\<close>

definition atan2 :: "real \<Rightarrow> real \<Rightarrow> real" where
  "atan2 y x =
     (if x > 0 then arctan (y / x)
      else if x < 0 \<and> y \<ge> 0 then arctan (y / x) + pi
      else if x < 0 then arctan (y / x) - pi
      else if y > 0 then pi / 2
      else if y < 0 then - pi / 2
      else 0)"

text \<open>\<^verbatim>\<open>_haversine_distance\<close>. \<^verbatim>\<open>math.sqrt\<close> raises \<^verbatim>\<open>ValueError\<close> on a negative argument;
  the branch is part of the function, and over the real numbers it is never taken (lemma
  \<open>haversine_distance_eq\<close> below).\<close>

definition haversine_distance :: "point \<Rightarrow> point \<Rightarrow> py_error + real" where
  "haversine_distance p1 p2 =
     (let lat1 = fst p1; lon1 = snd p1;
          lat2 = fst p2; lon2 = snd p2;
          R = 6371000;
          phi1 = radians lat1;
          phi2 = radians lat2;
          delta_phi = radians (lat2 - lat1);
          delta_lambda = radians (lon2 - lon1);
          a = (sin (delta_phi / 2))\<^sup>2 + cos phi1 * cos phi2 * (sin (delta_lambda / 2))\<^sup>2
      in if a < 0 \<or> 1 - a < 0 then Inl ValueError
         else Inr (R * (2 * atan2 (sqrt a) (sqrt (1 - a)))))"

text \<open>\<^verbatim>\<open>_calculate_path_distance\<close>: the loop over \<^verbatim>\<open>range(len(path) - 1)\<close> with its running
  total.\<close>

fun path_distance_loop :: "real \<Rightarrow> point list \<Rightarrow> py_error + real" where
  "path_distance_loop total_m (p # q # rest) =
     (case haversine_distance p q of
        Inl e \<Rightarrow> Inl e
      | Inr d \<Rightarrow> path_distance_loop (total_m + d) (q # rest))"
| "path_distance_loop total_m [p] = Inr total_m"
| "path_distance_loop total_m [] = Inr total_m"

definition calculate_path_distance :: "point list \<Rightarrow> py_error + real" where
  "calculate_path_distance pth = path_distance_loop 0 pth"

subsection \<open>\<^verbatim>\<open>start_delivery\<close>\<close>

text \<open>The result dictionary: success with \<^verbatim>\<open>estimated_duration_min\<close>, \<^verbatim>\<open>battery_start\<close>,
  \<^verbatim>\<open>distance_m\<close> and \<^verbatim>\<open>path_points\<close>, or failure with the error text.\<close>

datatype start_result =
    Delivery_started real real real nat
  | Start_failed message

text \<open>The two \<^verbatim>\<open>except\<close> clauses do the same: mode \<^verbatim>\<open>IDLE\<close>, the text recorded, failure
  returned.\<close>

definition fail_start :: "message \<Rightarrow> robot_controller \<Rightarrow> start_result \<times> robot_controller" where
  "fail_start msg c =
     (Start_failed msg, c\<lparr>state := (state c)\<lparr>mode := IDLE, error_message := Some msg\<rparr>\<rparr>)"

text \<open>The block under \<^verbatim>\<open># Initialize state\<close> (lines 118 to 126).\<close>

definition initialize_state ::
  "point \<Rightarrow> point \<Rightarrow> point list \<Rightarrow> robot_controller \<Rightarrow> robot_controller" where
  "initialize_state pickup delivery pth c =
     c\<lparr>state := (state c)\<lparr>mode := PICKUP,
                           current_lat := fst pickup, current_lon := snd pickup,
                           target_lat := Some (fst delivery), target_lon := Some (snd delivery),
                           total_path := Some pth,
                           path_index := 0,
                           distance_traveled_m := 0\<rparr>,
       path := pth,
       emergency_stop_activated := False,
       is_moving := True\<rparr>"

text \<open>The block under \<^verbatim>\<open># Start movement task\<close> (lines 131 to 136): a referenced task that
  is not done is cancelled and awaited. The cancelled coroutine \<^verbatim>\<open>_move_along_path\<close> catches
  \<^verbatim>\<open>CancelledError\<close> at its outermost level, logs and returns without an assignment, so the
  await ends with the task done and the controller otherwise as it was. This is the block
  when the cancelled task is the only other coroutine that runs during the await; the
  await is a point where the event loop may run any other coroutine, and the section on
  the event loop below splits the call there.\<close>

definition cancel_and_await :: "robot_controller \<Rightarrow> robot_controller" where
  "cancel_and_await c =
     (case movement_task c of
        None \<Rightarrow> c
      | Some t \<Rightarrow>
          if t < length (tasks c) \<and> tasks c ! t = Pending
          then c\<lparr>tasks := (tasks c)[t := Done]\<rparr>
          else c)"

text \<open>Line 138: \<^verbatim>\<open>self.movement_task = asyncio.create_task(self._move_along_path())\<close>.\<close>

definition create_task :: "robot_controller \<Rightarrow> robot_controller" where
  "create_task c = c\<lparr>movement_task := Some (length (tasks c)), tasks := tasks c @ [Pending]\<rparr>"

text \<open>The controller before the call and after each of the three blocks of a call that has
  passed the validation, in the order of the source.\<close>

definition start_delivery_states ::
  "robot_controller \<Rightarrow> point \<Rightarrow> point \<Rightarrow> point list \<Rightarrow> robot_controller list" where
  "start_delivery_states c pickup delivery pth =
     (let c1 = initialize_state pickup delivery pth c;
          c2 = cancel_and_await c1;
          c3 = create_task c2
      in [c, c1, c2, c3])"

text \<open>\<^verbatim>\<open>start_delivery\<close>. The log line after the battery check formats
  \<^verbatim>\<open>get_percentage()\<close>, which raises on a capacity of zero before anything is assigned.\<close>

definition start_delivery ::
  "robot_controller \<Rightarrow> point \<Rightarrow> point \<Rightarrow> point list \<Rightarrow> start_result \<times> robot_controller" where
  "start_delivery c pickup delivery pth =
     (if length pth < 2 then fail_start Invalid_path c
      else case calculate_path_distance pth of
        Inl e \<Rightarrow> fail_start (Exception_message e) c
      | Inr route_distance \<Rightarrow>
          (case can_complete_route (battery c) route_distance ROBOT_SPEED_KMH of
             Inl e \<Rightarrow> fail_start (Exception_message e) c
           | Inr battery_check \<Rightarrow>
               if \<not> battery_check
               then fail_start
                      (Insufficient_battery_for_route (route_distance / 1000)
                         (estimate_range (battery c) / 1000)) c
               else (case get_percentage (battery c) of
                  Inl e \<Rightarrow> fail_start (Exception_message e) c
                | Inr logged \<Rightarrow>
                    let c3 = last (start_delivery_states c pickup delivery pth);
                        estimated_duration = route_distance / 1000 / ROBOT_SPEED_KMH * 60
                    in (case get_percentage (battery c3) of
                          Inl e \<Rightarrow> fail_start (Exception_message e) c3
                        | Inr battery_start \<Rightarrow>
                            (Delivery_started estimated_duration battery_start route_distance
                               (length pth), c3)))))"

subsection \<open>\<^verbatim>\<open>emergency_stop\<close> and \<^verbatim>\<open>resume_mission\<close>\<close>

definition emergency_stop :: "robot_controller \<Rightarrow> robot_controller" where
  "emergency_stop c =
     c\<lparr>emergency_stop_activated := True,
       state := (state c)\<lparr>mode := EMERGENCY, current_speed_kmh := 0\<rparr>\<rparr>"

definition resume_mission :: "robot_controller \<Rightarrow> robot_controller" where
  "resume_mission c =
     (let c1 = c\<lparr>emergency_stop_activated := False\<rparr>
      in if mode (state c1) = EMERGENCY
         then c1\<lparr>state := (state c1)\<lparr>mode := TRANSIT\<rparr>\<rparr>
         else c1)"

subsection \<open>The movement task\<close>

text \<open>
  What the movement task draws from outside: the wall-clock hour, the random numbers and the
  clock readings. They are inputs, one record for each pass of the \<^verbatim>\<open>while\<close> loop, and
  inside it one record for each sub-step of the segment. The task is followed from its
  first statement to its end as one run; calls of \<^verbatim>\<open>emergency_stop\<close>, \<^verbatim>\<open>resume_mission\<close> or
  \<^verbatim>\<open>start_delivery\<close> that other coroutines make while it sleeps are not part of a run.
\<close>

record substep_input =
  gps_noise_lat :: real
  gps_noise_lon :: real
  speed_variation :: real
  grade_sample :: real
  clock :: real

record segment_input =
  hour_of_day :: nat
  speed_jitter :: real
  substep :: "nat \<Rightarrow> substep_input"

record iteration_input =
  obstacle_hour :: nat
  obstacle_draw :: real
  segment :: segment_input

text \<open>\<^verbatim>\<open>_check_obstacles\<close> and \<^verbatim>\<open>_handle_obstacle\<close>.\<close>

definition check_obstacles :: "nat \<Rightarrow> real \<Rightarrow> bool" where
  "check_obstacles hour draw =
     (if (8 \<le> hour \<and> hour \<le> 10) \<or> (17 \<le> hour \<and> hour \<le> 20)
      then draw < 0.05
      else draw < 0.01)"

definition handle_obstacle :: "robot_controller \<Rightarrow> robot_controller" where
  "handle_obstacle c = c\<lparr>state := (state c)\<lparr>current_speed_kmh := 0\<rparr>\<rparr>"

text \<open>The \<^verbatim>\<open>for step in range(steps)\<close> loop of \<^verbatim>\<open>_move_to_point\<close>. The result is the raised
  exception, if any, and the controller as the loop left it; \<^verbatim>\<open>break\<close> ends the loop
  without an exception.\<close>

fun substeps_loop ::
  "segment_input \<Rightarrow> point \<Rightarrow> point \<Rightarrow> real \<Rightarrow> real \<Rightarrow> nat \<Rightarrow> nat list \<Rightarrow> robot_controller
     \<Rightarrow> py_error option \<times> robot_controller" where
  "substeps_loop env start target distance current_speed steps [] c = (None, c)"
| "substeps_loop env start target distance current_speed steps (step # later) c =
     (if emergency_stop_activated c then (None, c)
      else
        let lat1 = fst start; lon1 = snd start;
            lat2 = fst target; lon2 = snd target;
            fraction = (real step + 1) / real steps;
            new_lat = lat1 + (lat2 - lat1) * fraction + gps_noise_lat (substep env step);
            new_lon = lon1 + (lon2 - lon1) * fraction + gps_noise_lon (substep env step);
            c1 = c\<lparr>state := (state c)\<lparr>current_lat := new_lat, current_lon := new_lon,
                    current_speed_kmh := current_speed * speed_variation (substep env step)\<rparr>\<rparr>;
            segment_distance = distance / real steps;
            grade = grade_sample (substep env step)
        in case consume_energy (battery c1) segment_distance
                  (current_speed_kmh (state c1)) grade of
             (Inl e, b) \<Rightarrow> (Some e, c1\<lparr>battery := b\<rparr>)
           | (Inr consumption, b) \<Rightarrow>
               (case consumption of
                  Consumed consumption_kwh remaining_kwh percentage \<Rightarrow>
                    substeps_loop env start target distance current_speed steps later
                      (c1\<lparr>battery := b,
                          state := (state c1)\<lparr>
                            distance_traveled_m := distance_traveled_m (state c1) + segment_distance,
                            battery_percentage := percentage,
                            last_update := clock (substep env step)\<rparr>\<rparr>)
                | _ \<Rightarrow>
                    (None, c1\<lparr>battery := b, emergency_stop_activated := True,
                              state := (state c1)\<lparr>mode := EMERGENCY\<rparr>\<rparr>)))"

text \<open>\<^verbatim>\<open>_move_to_point\<close>. \<^verbatim>\<open>int(movement_time * 2)\<close> truncates towards zero; under
  \<^verbatim>\<open>max(1, ...)\<close> this is the same number as the floor cut off at zero.\<close>

definition move_to_point ::
  "segment_input \<Rightarrow> point \<Rightarrow> robot_controller \<Rightarrow> py_error option \<times> robot_controller" where
  "move_to_point env target c =
     (let lat1 = current_lat (state c); lon1 = current_lon (state c)
      in case haversine_distance (lat1, lon1) target of
           Inl e \<Rightarrow> (Some e, c)
         | Inr distance \<Rightarrow>
             let road_type = (if distance > 100 then ''primary''
                              else if distance > 50 then ''residential''
                              else ''service'');
                 base_speed = get_road_type_speed road_type;
                 traffic_factor = get_traffic_factor (hour_of_day env);
                 current_speed = base_speed * traffic_factor * speed_jitter env;
                 speed_ms = current_speed / 3.6;
                 movement_time = (if speed_ms > 0 then distance / speed_ms else 0);
                 steps = max 1 (nat \<lfloor>movement_time * 2\<rfloor>)
             in substeps_loop env (lat1, lon1) target distance current_speed steps
                  [0..<steps] c)"

text \<open>The chain under \<^verbatim>\<open># Update delivery status based on progress\<close>.\<close>

definition final_waypoint_transition :: "robot_controller \<Rightarrow> robot_controller" where
  "final_waypoint_transition c =
     (if mode (state c) = PICKUP then c\<lparr>state := (state c)\<lparr>mode := TRANSIT\<rparr>\<rparr>
      else if mode (state c) = TRANSIT then c\<lparr>state := (state c)\<lparr>mode := DELIVERY\<rparr>\<rparr>
      else if mode (state c) = DELIVERY then c\<lparr>state := (state c)\<lparr>mode := RETURN\<rparr>\<rparr>
      else if mode (state c) = RETURN
        then c\<lparr>state := (state c)\<lparr>mode := IDLE\<rparr>, is_moving := False\<rparr>
      else c)"

text \<open>One pass of the body of the \<^verbatim>\<open>while\<close> loop of \<^verbatim>\<open>_move_along_path\<close>.\<close>

definition loop_body ::
  "iteration_input \<Rightarrow> robot_controller \<Rightarrow> py_error option \<times> robot_controller" where
  "loop_body env c =
     (if emergency_stop_activated c
      then (None, c\<lparr>state := (state c)\<lparr>mode := EMERGENCY\<rparr>\<rparr>)
      else if check_obstacles (obstacle_hour env) (obstacle_draw env)
      then (None, handle_obstacle (c\<lparr>state := (state c)\<lparr>obstacle_detected := True\<rparr>\<rparr>))
      else
        let c1 = c\<lparr>state := (state c)\<lparr>obstacle_detected := False\<rparr>\<rparr>;
            current_index = path_index (state c1)
        in if \<not> current_index + 1 < length (path c1) then (Some IndexError, c1)
           else
             let next_point = path c1 ! (current_index + 1)
             in case move_to_point (segment env) next_point c1 of
                  (Some e, c2) \<Rightarrow> (Some e, c2)
                | (None, c2) \<Rightarrow>
                    let c3 = c2\<lparr>state := (state c2)\<lparr>path_index := path_index (state c2) + 1\<rparr>\<rparr>
                    in if int (path_index (state c3)) \<ge> int (length (path c3)) - 1
                       then (None, final_waypoint_transition c3)
                       else (None, c3))"

text \<open>\<^verbatim>\<open>_move_along_path\<close>: the \<^verbatim>\<open>while\<close> loop inside its \<^verbatim>\<open>try\<close>. The result lists the
  controller after each pass; an exception ends the run with the assignments of the
  \<^verbatim>\<open>except Exception\<close> clause. The loop can go on for ever (an obstacle on every pass), so
  the run is \<open>None\<close> when the inputs are used up before the loop has ended.\<close>

fun move_along_path :: "iteration_input list \<Rightarrow> robot_controller \<Rightarrow> robot_controller list option" where
  "move_along_path envs c =
     (if int (path_index (state c)) < int (length (path c)) - 1 \<and> \<not> emergency_stop_activated c
      then (case envs of
              [] \<Rightarrow> None
            | env # later \<Rightarrow>
                (case loop_body env c of
                   (Some e, c') \<Rightarrow>
                     Some [c'\<lparr>state := (state c')\<lparr>mode := EMERGENCY,
                                  error_message := Some (Exception_message e)\<rparr>\<rparr>]
                 | (None, c') \<Rightarrow> map_option (Cons c') (move_along_path later c')))
      else Some [])"

text \<open>The modes a run passes through, starting with the mode at its start.\<close>

definition modes_of_run :: "robot_controller \<Rightarrow> robot_controller list \<Rightarrow> robot_mode list" where
  "modes_of_run c run = remdups_adj (map (\<lambda>c'. mode (state c')) (c # run))"

text \<open>Inputs of a quiet pass: noon, no obstacle drawn, no jitter, no noise, level road.\<close>

definition quiet_substep :: substep_input where
  "quiet_substep =
     \<lparr>gps_noise_lat = 0, gps_noise_lon = 0, speed_variation = 1, grade_sample = 0, clock = 0\<rparr>"

definition quiet :: iteration_input where
  "quiet =
     \<lparr>obstacle_hour = 12, obstacle_draw = 0.5,
      segment = \<lparr>hour_of_day = 12, speed_jitter = 1, substep = (\<lambda>step. quiet_substep)\<rparr>\<rparr>"

text \<open>A new robot, and the mission that \<^verbatim>\<open>start_delivery\<close> begins on it with a path of two
  points at the robot's own position.\<close>

definition depot :: point where
  "depot = (12.9716, 77.5946)"

definition new_robot :: robot_controller where
  "new_robot = RobotController ''R001'' 0 0"

definition mission :: robot_controller where
  "mission = snd (start_delivery new_robot depot depot [depot, depot])"

subsection \<open>\<^verbatim>\<open>start_delivery\<close> under the event loop\<close>

text \<open>
  \<^verbatim>\<open>start_delivery\<close> is a coroutine with one await, \<^verbatim>\<open>await self.movement_task\<close> (line 134),
  reached only when the referenced task is not done. Everything before it and everything
  after it runs without interruption; at the await the event loop runs other coroutines:
  the task whose cancellation was requested, and any other call of \<^verbatim>\<open>start_delivery\<close> on the
  same controller (each request to \<^verbatim>\<open>/start_delivery\<close> awaits \<^verbatim>\<open>robot.start_delivery\<close>). Here
  the call is split at the await. A suspended call remembers the task it awaits and its
  local variables \<^verbatim>\<open>route_distance\<close> and \<^verbatim>\<open>len(path)\<close>.
\<close>

record suspended_call =
  awaited :: nat
  route_distance_m :: real
  path_points :: nat

record event_loop =
  controller :: robot_controller
  cancel_requested :: "nat list"
  suspended :: "suspended_call list"
  returned :: "start_result list"

text \<open>Lines 101 to 116: the validation, which answers the message of the exception raised
  or the distance of the route.\<close>

definition validate :: "robot_controller \<Rightarrow> point list \<Rightarrow> message + real" where
  "validate c pth =
     (if length pth < 2 then Inl Invalid_path
      else case calculate_path_distance pth of
        Inl e \<Rightarrow> Inl (Exception_message e)
      | Inr route_distance \<Rightarrow>
          (case can_complete_route (battery c) route_distance ROBOT_SPEED_KMH of
             Inl e \<Rightarrow> Inl (Exception_message e)
           | Inr battery_check \<Rightarrow>
               if \<not> battery_check
               then Inl (Insufficient_battery_for_route (route_distance / 1000)
                           (estimate_range (battery c) / 1000))
               else (case get_percentage (battery c) of
                  Inl e \<Rightarrow> Inl (Exception_message e)
                | Inr logged \<Rightarrow> Inr route_distance)))"

text \<open>Line 131, \<^verbatim>\<open>if self.movement_task and not self.movement_task.done()\<close>: the task to cancel
  and await, if there is one.\<close>

definition not_done :: "robot_controller \<Rightarrow> nat option" where
  "not_done c =
     (case movement_task c of
        None \<Rightarrow> None
      | Some t \<Rightarrow> if t < length (tasks c) \<and> tasks c ! t = Pending then Some t else None)"

text \<open>Lines 138 to 153, from \<^verbatim>\<open>create_task\<close> to the return.\<close>

definition finish_start ::
  "real \<Rightarrow> nat \<Rightarrow> robot_controller \<Rightarrow> start_result \<times> robot_controller" where
  "finish_start route_distance n c =
     (let c3 = create_task c;
          estimated_duration = route_distance / 1000 / ROBOT_SPEED_KMH * 60
      in case get_percentage (battery c3) of
           Inl e \<Rightarrow> fail_start (Exception_message e) c3
         | Inr battery_start \<Rightarrow>
             (Delivery_started estimated_duration battery_start route_distance n, c3))"

definition return_call :: "start_result \<times> robot_controller \<Rightarrow> event_loop \<Rightarrow> event_loop" where
  "return_call rc l = l\<lparr>controller := snd rc, returned := returned l @ [fst rc]\<rparr>"

text \<open>
  What the event loop runs next: a new call of \<^verbatim>\<open>start_delivery\<close>, up to its await or, when it
  does not await, to its return; a task whose cancellation was requested, which receives
  \<^verbatim>\<open>CancelledError\<close> at its own await, logs and ends without an assignment; or a suspended
  call, from its await to its return, once the task it awaits is done. \<^verbatim>\<open>advance\<close> answers
  \<open>None\<close> for an event that cannot happen in the state of the loop.
\<close>

datatype event =
    Call point point "point list"
  | Cancelled_task_runs nat
  | Call_resumes nat

fun advance :: "event_loop \<Rightarrow> event \<Rightarrow> event_loop option" where
  "advance l (Call pickup delivery pth) =
     (case validate (controller l) pth of
        Inl msg \<Rightarrow> Some (return_call (fail_start msg (controller l)) l)
      | Inr route_distance \<Rightarrow>
          (let c1 = initialize_state pickup delivery pth (controller l)
           in case not_done c1 of
                None \<Rightarrow> Some (return_call (finish_start route_distance (length pth) c1) l)
              | Some t \<Rightarrow>
                  Some (l\<lparr>controller := c1,
                          cancel_requested := cancel_requested l @ [t],
                          suspended := suspended l @
                            [\<lparr>awaited = t, route_distance_m = route_distance,
                              path_points = length pth\<rparr>]\<rparr>)))"
| "advance l (Cancelled_task_runs t) =
     (let c = controller l
      in if t \<in> set (cancel_requested l) \<and> t < length (tasks c) \<and> tasks c ! t = Pending
         then Some (l\<lparr>controller := c\<lparr>tasks := (tasks c)[t := Done]\<rparr>\<rparr>)
         else None)"
| "advance l (Call_resumes k) =
     (let c = controller l
      in if k < length (suspended l) \<and> awaited (suspended l ! k) < length (tasks c) \<and>
            tasks c ! awaited (suspended l ! k) = Done
         then Some (return_call
                (finish_start (route_distance_m (suspended l ! k))
                   (path_points (suspended l ! k)) c)
                (l\<lparr>suspended := take k (suspended l) @ drop (Suc k) (suspended l)\<rparr>))
         else None)"

fun run_events :: "event_loop \<Rightarrow> event list \<Rightarrow> event_loop option" where
  "run_events l [] = Some l"
| "run_events l (e # es) = (case advance l e of None \<Rightarrow> None | Some l' \<Rightarrow> run_events l' es)"

subsection \<open>Vocabulary for the properties of the controller\<close>

text \<open>The controller refers to every pending task of its own: a pending task is the one
  in \<^verbatim>\<open>movement_task\<close>. The second predicate is the consequence the specification names: at
  most one movement task is pending.\<close>

definition tracked :: "robot_controller \<Rightarrow> bool" where
  "tracked c \<longleftrightarrow> (\<forall>i < length (tasks c). tasks c ! i = Pending \<longrightarrow> movement_task c = Some i)"

definition at_most_one_pending :: "robot_controller \<Rightarrow> bool" where
  "at_most_one_pending c \<longleftrightarrow>
     (\<forall>i < length (tasks c). \<forall>j < length (tasks c).
        tasks c ! i = Pending \<and> tasks c ! j = Pending \<longrightarrow> i = j)"

definition origin :: point where
  "origin = (0, 0)"

text \<open>The indices of the tasks that are pending.\<close>

definition pending_tasks :: "robot_controller \<Rightarrow> nat list" where
  "pending_tasks c = filter (\<lambda>t. tasks c ! t = Pending) [0 ..< length (tasks c)]"

text \<open>The event loop while the first mission is under way, and two requests that arrive
  together: the first call runs to its await, the second call runs to its await, the
  cancelled task of the first mission ends, and the two calls resume in the order in which
  they were suspended.\<close>

definition under_way :: event_loop where
  "under_way = \<lparr>controller = mission, cancel_requested = [], suspended = [], returned = []\<rparr>"

definition two_calls :: "event list" where
  "two_calls =
     [Call origin origin [origin, origin], Call depot depot [depot, depot],
      Cancelled_task_runs 0, Call_resumes 0, Call_resumes 0]"

text \<open>The controller when the first of the two calls is at its await, when both are, and
  when the cancelled task has ended.\<close>

definition first_suspended :: robot_controller where
  "first_suspended = initialize_state origin origin [origin, origin] mission"

definition both_suspended :: robot_controller where
  "both_suspended = initialize_state depot depot [depot, depot] first_suspended"

definition old_task_done :: robot_controller where
  "old_task_done = both_suspended\<lparr>tasks := [Done]\<rparr>"

text \<open>A path of two points half the equator apart, about 20000 km.\<close>

definition antipode_path :: "point list" where
  "antipode_path = [(0, 0), (0, 180)]"

text \<open>A new robot after \<^verbatim>\<open>emergency_stop()\<close> and then a \<^verbatim>\<open>start_delivery\<close> with a path of one
  point, which is rejected.\<close>

definition stopped_then_rejected :: robot_controller where
  "stopped_then_rejected = snd (start_delivery (emergency_stop new_robot) depot depot [depot])"

text \<open>The condition of the \<^verbatim>\<open>while\<close> loop of \<^verbatim>\<open>_move_along_path\<close>.\<close>

definition loop_condition :: "robot_controller \<Rightarrow> bool" where
  "loop_condition c \<longleftrightarrow>
     int (path_index (state c)) < int (length (path c)) - 1 \<and> \<not> emergency_stop_activated c"

text \<open>The robot of the mission after its one quiet pass: at the last point of its path.\<close>

definition arrived :: robot_controller where
  "arrived = mission\<lparr>state := (state mission)\<lparr>current_speed_kmh := 8,
                        battery_percentage := 100, last_update := 0, path_index := 1,
                        mode := TRANSIT\<rparr>\<rparr>"

section \<open>services/routing\_engine.py and services/map\_service.py\<close>

text \<open>
  The road graph is a networkx \<^verbatim>\<open>MultiDiGraph\<close>: nodes with the attributes \<^verbatim>\<open>x\<close> (longitude)
  and \<^verbatim>\<open>y\<close> (latitude), directed edges with the attributes \<^verbatim>\<open>length\<close> and \<^verbatim>\<open>highway\<close>. The
  attribute \<^verbatim>\<open>highway\<close> may be missing, a string, or a list of strings. The identifiers of
  the nodes are numbers in a graph of OSMnx and strings in the fallback graph, so the type
  of the graph leaves them open. The search itself (\<^verbatim>\<open>nx.astar_path\<close>) is library code; what
  the repository decides is the edge cost and the heuristic it passes to the search, and
  the graph it builds when the download fails, and these are modelled.
\<close>

datatype highway_tag = Road_class string | Road_classes "string list"

record edge_data =
  edge_length :: real
  highway :: "highway_tag option"

type_synonym 'n edge = "'n \<times> 'n \<times> edge_data"

record 'n road_graph =
  nodes :: "'n \<rightharpoonup> real \<times> real"
  edges :: "'n edge list"

text \<open>The enumeration \<^verbatim>\<open>RoadType\<close> of routing\_engine.py and its values.\<close>

datatype road_type = HIGHWAY | MAIN_ROAD | RESIDENTIAL | SERVICE | PEDESTRIAN

fun road_type_value :: "road_type \<Rightarrow> real" where
  "road_type_value HIGHWAY = 1.0"
| "road_type_value MAIN_ROAD = 1.2"
| "road_type_value RESIDENTIAL = 1.5"
| "road_type_value SERVICE = 2.0"
| "road_type_value PEDESTRIAN = 3.0"

definition road_type_weights :: "(string \<times> real) list" where
  "road_type_weights =
     [(''motorway'', road_type_value HIGHWAY),
      (''trunk'', road_type_value HIGHWAY),
      (''primary'', road_type_value MAIN_ROAD),
      (''secondary'', road_type_value MAIN_ROAD),
      (''tertiary'', road_type_value RESIDENTIAL),
      (''residential'', road_type_value RESIDENTIAL),
      (''service'', road_type_value SERVICE),
      (''unclassified'', road_type_value SERVICE),
      (''path'', road_type_value PEDESTRIAN),
      (''footway'', road_type_value PEDESTRIAN)]"

text \<open>\<^verbatim>\<open>self.road_type_weights.get(road_type, RoadType.RESIDENTIAL.value)\<close>.\<close>

definition weight_factor :: "string \<Rightarrow> real" where
  "weight_factor road_type =
     (case map_of road_type_weights road_type of
        Some w \<Rightarrow> w
      | None \<Rightarrow> road_type_value RESIDENTIAL)"

text \<open>The function \<^verbatim>\<open>weight\<close> inside \<^verbatim>\<open>RoutingEngine.calculate_route_astar\<close>, on the
  attributes of one edge (every edge carries the attribute \<^verbatim>\<open>length\<close>).
  \<^verbatim>\<open>road_type[0]\<close> raises on an empty list.\<close>

definition weight :: "edge_data \<Rightarrow> py_error + real" where
  "weight d =
     (let base_distance = edge_length d;
          road_type = (case highway d of None \<Rightarrow> Road_class ''residential'' | Some t \<Rightarrow> t)
      in case road_type of
           Road_classes [] \<Rightarrow> Inl IndexError
         | Road_classes (first # others) \<Rightarrow> Inr (base_distance * weight_factor first)
         | Road_class name \<Rightarrow> Inr (base_distance * weight_factor name))"


text \<open>The A* call of \<^verbatim>\<open>MapService._osm_route\<close>, the one \<^verbatim>\<open>get_route\<close> runs: its heuristic is
  the great-circle distance of the two nodes (\<^verbatim>\<open>MapService._haversine_distance\<close> has the
  same text as the controller's \<^verbatim>\<open>_haversine_distance\<close>), and its edge cost is
  \<^verbatim>\<open>weight='length'\<close>, the attribute \<^verbatim>\<open>length\<close> as it is.\<close>

definition osm_heuristic :: "'n road_graph \<Rightarrow> 'n \<Rightarrow> 'n \<Rightarrow> py_error + real" where
  "osm_heuristic g u v =
     (case nodes g u of
        None \<Rightarrow> Inl KeyError
      | Some u_data \<Rightarrow>
          (case nodes g v of
             None \<Rightarrow> Inl KeyError
           | Some v_data \<Rightarrow>
               haversine_distance (snd u_data, fst u_data) (snd v_data, fst v_data)))"

definition osm_weight :: "edge_data \<Rightarrow> real" where
  "osm_weight d = edge_length d"

subsection \<open>\<^verbatim>\<open>MapService._create_fallback_graph\<close>\<close>

text \<open>
  The graph that \<^verbatim>\<open>fetch_road_network\<close> builds when the download of the road network fails:
  a grid of 10 by 10 nodes around the centre it is given, 0.001 degrees apart, each joined to
  its two next neighbours by a pair of residential edges whose length is the great-circle
  distance of the two nodes. The node \<^verbatim>\<open>node_{i}_{j}\<close> is the pair \<open>(i, j)\<close>.
\<close>

definition grid_size :: nat where
  "grid_size = 10"

definition step :: real where
  "step = 0.001"

type_synonym grid_node = "nat \<times> nat"

text \<open>The first nested loop: the attributes \<^verbatim>\<open>x\<close> and \<^verbatim>\<open>y\<close> of the nodes.\<close>

definition grid_nodes :: "real \<Rightarrow> real \<Rightarrow> grid_node \<rightharpoonup> real \<times> real" where
  "grid_nodes center_lat center_lon =
     (\<lambda>(i, j).
        if i < grid_size \<and> j < grid_size
        then (let lat = center_lat + (real i - real grid_size / 2) * step;
                  lon = center_lon + (real j - real grid_size / 2) * step
              in Some (lon, lat))
        else None)"

text \<open>The attributes \<^verbatim>\<open>length=dist, highway='residential'\<close> of an edge of the grid.\<close>

definition residential :: "real \<Rightarrow> edge_data" where
  "residential dist_m = \<lparr>edge_length = dist_m, highway = Some (Road_class ''residential'')\<rparr>"

text \<open>The body of each of the two \<^verbatim>\<open>if\<close> blocks: the distance of the two nodes, and the two
  edges.\<close>

definition connect_nodes ::
  "(grid_node \<rightharpoonup> real \<times> real) \<Rightarrow> grid_node \<Rightarrow> grid_node \<Rightarrow>
   py_error + grid_node edge list" where
  "connect_nodes ns node1 node2 =
     (case ns node1 of
        None \<Rightarrow> Inl KeyError
      | Some d1 \<Rightarrow>
          (case ns node2 of
             None \<Rightarrow> Inl KeyError
           | Some d2 \<Rightarrow>
               (case haversine_distance (snd d1, fst d1) (snd d2, fst d2) of
                  Inl e \<Rightarrow> Inl e
                | Inr dist_m \<Rightarrow>
                    Inr [(node1, node2, residential dist_m),
                         (node2, node1, residential dist_m)])))"

text \<open>The second nested loop, over the pairs \<open>(i, j)\<close> in their order, with the edges added so
  far.\<close>

fun add_edges ::
  "(grid_node \<rightharpoonup> real \<times> real) \<Rightarrow> grid_node list \<Rightarrow> grid_node edge list \<Rightarrow>
   py_error + grid_node edge list" where
  "add_edges ns [] es = Inr es"
| "add_edges ns ((i, j) # rest) es =
     (case (if i < grid_size - 1 then connect_nodes ns (i, j) (i + 1, j) else Inr []) of
        Inl e \<Rightarrow> Inl e
      | Inr right \<Rightarrow>
          (case (if j < grid_size - 1 then connect_nodes ns (i, j) (i, j + 1) else Inr []) of
             Inl e \<Rightarrow> Inl e
           | Inr bottom \<Rightarrow> add_edges ns rest (es @ right @ bottom)))"

definition create_fallback_graph :: "real \<Rightarrow> real \<Rightarrow> py_error + grid_node road_graph" where
  "create_fallback_graph center_lat center_lon =
     (let ns = grid_nodes center_lat center_lon
      in case add_edges ns (List.product [0 ..< grid_size] [0 ..< grid_size]) [] of
           Inl e \<Rightarrow> Inl e
         | Inr es \<Rightarrow> Inr \<lparr>nodes = ns, edges = es\<rparr>)"

subsection \<open>Vocabulary for the properties of the search\<close>

text \<open>A path from \<open>u\<close> to \<open>v\<close> is a list of edges of the graph, each starting where the one
  before it ends. Its weighted cost is the sum of the weights of \<^verbatim>\<open>RoutingEngine\<close> of its
  edges; its cost in \<^verbatim>\<open>MapService._osm_route\<close> is the sum of their lengths.\<close>

fun is_path :: "'n road_graph \<Rightarrow> 'n \<Rightarrow> 'n edge list \<Rightarrow> 'n \<Rightarrow> bool" where
  "is_path g u [] v \<longleftrightarrow> u = v"
| "is_path g u (e # es) v \<longleftrightarrow> e \<in> set (edges g) \<and> fst e = u \<and> is_path g (fst (snd e)) es v"

fun path_cost :: "'n edge list \<Rightarrow> py_error + real" where
  "path_cost [] = Inr 0"
| "path_cost (e # es) =
     (case weight (snd (snd e)) of
        Inl err \<Rightarrow> Inl err
      | Inr w \<Rightarrow> (case path_cost es of Inl err \<Rightarrow> Inl err | Inr c \<Rightarrow> Inr (w + c)))"

definition osm_path_cost :: "'n edge list \<Rightarrow> real" where
  "osm_path_cost es = sum_list (map (\<lambda>e. osm_weight (snd (snd e))) es)"

text \<open>Every edge is at least as long as the great-circle distance between its two ends (so
  both ends have coordinates): no road is shorter than the straight way.\<close>

definition edges_span_great_circle :: "'n road_graph \<Rightarrow> bool" where
  "edges_span_great_circle g \<longleftrightarrow>
     (\<forall>e \<in> set (edges g).
        \<exists>h. osm_heuristic g (fst e) (fst (snd e)) = Inr h \<and> h \<le> edge_length (snd (snd e)))"

text \<open>The quantities of the haversine formula: the value \<^verbatim>\<open>a\<close>, the angle \<^verbatim>\<open>c\<close> between the two
  points seen from the centre of the sphere, and the inner product of the unit vectors
  that point to them.\<close>

definition haversine_a :: "point \<Rightarrow> point \<Rightarrow> real" where
  "haversine_a p1 p2 =
     (sin (radians (fst p2 - fst p1) / 2))\<^sup>2 +
     cos (radians (fst p1)) * cos (radians (fst p2)) * (sin (radians (snd p2 - snd p1) / 2))\<^sup>2"

definition central_angle :: "point \<Rightarrow> point \<Rightarrow> real" where
  "central_angle p1 p2 = 2 * atan2 (sqrt (haversine_a p1 p2)) (sqrt (1 - haversine_a p1 p2))"

definition dotp :: "point \<Rightarrow> point \<Rightarrow> real" where
  "dotp p q =
     cos (radians (fst p)) * cos (radians (snd p)) * (cos (radians (fst q)) * cos (radians (snd q))) +
     cos (radians (fst p)) * sin (radians (snd p)) * (cos (radians (fst q)) * sin (radians (snd q))) +
     sin (radians (fst p)) * sin (radians (fst q))"



section \<open>Properties of the battery model\<close>

lemmas battery_consts = consumption_rate_def regenerative_braking_efficiency_def
  temperature_derate_factor_def cycle_degradation_def

lemma charging_battery_eq: "charging_battery = (BatteryModel 2.5)\<lparr>charging := True\<rparr>"
  by (simp add: charging_battery_def charge_def BatteryModel_def get_percentage_def Let_def)

lemma drained_battery_eq:
  "drained_battery = (BatteryModel 2.5)\<lparr>current_charge_kwh := 461 / 750,
      current_a := 101 / 540000, health := POOR\<rparr>"
  by (simp add: drained_battery_def consume_energy_def calculate_consumption_def
      BatteryModel_def battery_consts Let_def power2_eq_square update_health_def get_percentage_def)

subsection \<open>The feasibility check and the consumption that follows it\<close>

lemma can_complete_route_iff:
  "can_complete_route b d s = Inr True \<longleftrightarrow>
     (\<exists>required. calculate_consumption b d s 0 = Inr required \<and>
        required \<le> 0.9 * current_charge_kwh b)"
  by (auto simp: can_complete_route_def split: sum.splits)

lemma consume_after_check:
  assumes "can_complete_route b d s = Inr True" "\<not> charging b" "0 \<le> current_charge_kwh b"
    "capacity_kwh b \<noteq> 0" "0 < d \<longrightarrow> s \<noteq> 0"
  shows "\<exists>r. fst (consume_energy b d s 0) = Inr r \<and> success r"
proof -
  from assms(1) obtain c where c: "calculate_consumption b d s 0 = Inr c"
    and le: "c \<le> 0.9 * current_charge_kwh b"
    by (auto simp: can_complete_route_iff)
  from le assms(3) have "\<not> c > current_charge_kwh b" by simp
  with c assms show ?thesis
    by (auto simp: consume_energy_def Let_def update_health_def get_percentage_def)
qed

text \<open>
  C5, as the code has it. \<^verbatim>\<open>can_complete_route\<close> answers true exactly when the predicted
  consumption (grade 0) is computed and is at most 0.9 times the current charge; it is a
  function of the battery and returns no new battery. When it answers true, the
  \<^verbatim>\<open>consume_energy\<close> call with the same distance and speed and grade 0 succeeds, provided
  the battery is not charging, its charge is not negative, its capacity is not zero, and
  the speed is not zero when the distance is positive.
\<close>

theorem can_complete_route_then_consume_energy:
  "(can_complete_route b d s = Inr True \<longleftrightarrow>
     (\<exists>required. calculate_consumption b d s 0 = Inr required \<and>
        required \<le> 0.9 * current_charge_kwh b)) \<and>
   (can_complete_route b d s = Inr True \<and> \<not> charging b \<and> 0 \<le> current_charge_kwh b \<and>
      capacity_kwh b \<noteq> 0 \<and> (0 < d \<longrightarrow> s \<noteq> 0)
    \<longrightarrow> (\<exists>r. fst (consume_energy b d s 0) = Inr r \<and> success r))"
  using can_complete_route_iff consume_after_check by blast

text \<open>C5, witness: a new 2.5 kWh battery, 1000 m at 15 km/h.\<close>

theorem can_complete_route_then_consume_energy_witness:
  "can_complete_route (BatteryModel 2.5) 1000 15 = Inr True \<and>
   \<not> charging (BatteryModel 2.5) \<and> 0 \<le> current_charge_kwh (BatteryModel 2.5) \<and>
   capacity_kwh (BatteryModel 2.5) \<noteq> 0 \<and> (15::real) \<noteq> 0 \<and>
   (\<exists>r. fst (consume_energy (BatteryModel 2.5) 1000 15 0) = Inr r \<and> success r)"
proof -
  have h: "can_complete_route (BatteryModel 2.5) 1000 15 = Inr True"
    by (simp add: can_complete_route_def calculate_consumption_def BatteryModel_def
        battery_consts Let_def power2_eq_square)
  have g: "\<not> charging (BatteryModel 2.5) \<and> 0 \<le> current_charge_kwh (BatteryModel 2.5) \<and>
   capacity_kwh (BatteryModel 2.5) \<noteq> 0 \<and> (15::real) \<noteq> 0"
    by (simp add: BatteryModel_def)
  from h g can_complete_route_then_consume_energy [of "BatteryModel 2.5" 1000 15]
  show ?thesis by blast
qed

text \<open>C5, counterexample to the claim as stated (every battery state): on a full battery
  that is charging the check answers true and the consumption is refused.\<close>

theorem can_complete_route_ignores_charging:
  "can_complete_route charging_battery 1000 15 = Inr True \<and>
   fst (consume_energy charging_battery 1000 15 0) = Inr Robot_is_charging"
  by (simp add: charging_battery_eq can_complete_route_def consume_energy_def
      calculate_consumption_def BatteryModel_def battery_consts Let_def power2_eq_square)

subsection \<open>The bounds of the charge\<close>

lemma calculate_consumption_nonneg:
  assumes "calculate_consumption b d s g = Inr c" "0 \<le> d" "- 20 \<le> g" "cycles b < 6000"
  shows "0 \<le> c"
proof -
  define hf where "hf = 1 + (1000 - cycles b) * cycle_degradation"
  define raw where "raw = d / 1000 * consumption_rate * (1 + 0.01 * (s / 10)\<^sup>2)
                * (1 + 0.05 * g) * temperature_derate_factor / hf"
  define k where "k = 1 - min (- g * 0.01 * regenerative_braking_efficiency) 0.5"
  have hf: "0 < hf" using assms(4) by (simp add: hf_def cycle_degradation_def field_simps)
  have sf: "0 \<le> 1 + 0.01 * (s / 10)\<^sup>2" by (simp add: add_nonneg_nonneg)
  have gf: "0 \<le> 1 + 0.05 * g" using assms(3) by simp
  have "0 \<le> d / 1000 * consumption_rate" using assms(2) by (simp add: consumption_rate_def)
  with sf gf have "0 \<le> d / 1000 * consumption_rate * (1 + 0.01 * (s / 10)\<^sup>2)
      * (1 + 0.05 * g) * temperature_derate_factor"
    by (simp add: temperature_derate_factor_def mult_nonneg_nonneg)
  then have raw: "0 \<le> raw" unfolding raw_def using hf by (rule divide_nonneg_pos)
  have k: "0 \<le> k" unfolding k_def by (rule order_trans [of _ "1 - 0.5"]) simp_all
  from assms(1) hf have "c = (if g < 0 then raw * k else raw)"
    by (auto simp: calculate_consumption_def Let_def hf_def raw_def k_def split: if_splits)
  with raw k show ?thesis by (simp add: mult_nonneg_nonneg)
qed

lemma consume_energy_capacity: "capacity_kwh (snd (consume_energy b d s g)) = capacity_kwh b"
  by (auto simp: consume_energy_def Let_def update_health_def get_percentage_def split: sum.splits)

lemma consume_energy_cycles: "cycles (snd (consume_energy b d s g)) \<le> cycles b + 0.1"
  by (auto simp: consume_energy_def Let_def update_health_def get_percentage_def split: sum.splits)

lemma consume_energy_lower:
  "0 \<le> current_charge_kwh b \<Longrightarrow> 0 \<le> current_charge_kwh (snd (consume_energy b d s g))"
  by (auto simp: consume_energy_def Let_def update_health_def get_percentage_def split: sum.splits)

lemma consume_energy_upper:
  assumes "current_charge_kwh b \<le> capacity_kwh b" "0 \<le> d" "- 20 \<le> g" "cycles b < 6000"
  shows "current_charge_kwh (snd (consume_energy b d s g)) \<le> capacity_kwh b"
proof (cases "calculate_consumption b d s g")
  case (Inl e)
  with assms(1) show ?thesis by (simp add: consume_energy_def)
next
  case (Inr c)
  with assms have "0 \<le> c" by (simp add: calculate_consumption_nonneg)
  with Inr assms(1) show ?thesis
    by (auto simp: consume_energy_def Let_def update_health_def get_percentage_def)
qed

lemma charge_fields:
  "current_charge_kwh (snd (charge b e)) = min (current_charge_kwh b + e) (capacity_kwh b)"
  "capacity_kwh (snd (charge b e)) = capacity_kwh b"
  "cycles (snd (charge b e)) = cycles b"
  by (auto simp: charge_def Let_def get_percentage_def)

lemma apply_op_invariant:
  assumes "charge_invariant b" "op_in_range x" "cycles b < 6000"
  shows "charge_invariant (apply_op b x)"
proof (cases x)
  case (Consume d s g)
  with assms show ?thesis
    by (simp add: charge_invariant_def consume_energy_lower consume_energy_upper
        consume_energy_capacity)
next
  case (Charge e)
  with assms show ?thesis
    by (auto simp: charge_invariant_def charge_fields)
qed

lemma apply_op_cycles: "cycles (apply_op b x) \<le> cycles b + 0.1"
  using consume_energy_cycles [of b] by (cases x) (simp_all add: charge_fields)

lemma run_ops_invariant:
  "charge_invariant b \<Longrightarrow> list_all op_in_range ops \<Longrightarrow>
   cycles b + real (length ops) / 10 < 6000 \<Longrightarrow> charge_invariant (run_ops b ops)"
proof (induction ops arbitrary: b)
  case Nil
  then show ?case by simp
next
  case (Cons x xs)
  have len: "0 \<le> real (length (x # xs)) / 10" by simp
  with Cons.prems(3) have cyc: "cycles b < 6000" by linarith
  with Cons.prems have inv: "charge_invariant (apply_op b x)"
    by (simp add: apply_op_invariant)
  have "cycles (apply_op b x) + real (length xs) / 10 \<le> cycles b + real (length (x # xs)) / 10"
    using apply_op_cycles [of b x] by (simp add: field_simps)
  with Cons.prems(3) have "cycles (apply_op b x) + real (length xs) / 10 < 6000" by linarith
  with inv Cons.prems(2) Cons.IH show ?case by simp
qed

text \<open>
  C6, as the code has it. For all arguments, \<^verbatim>\<open>consume_energy\<close> leaves a charge that is not
  negative not negative, and \<^verbatim>\<open>charge\<close> leaves the charge at most the capacity. The
  invariant \<open>0 \<le> current_charge_kwh \<le> capacity_kwh\<close> is preserved by every sequence of
  \<^verbatim>\<open>consume_energy\<close> and \<^verbatim>\<open>charge\<close> calls whose distances and charged amounts are not
  negative and whose grades are at least \<open>-20\<close> percent, as long as the cycle count stays
  below 6000 (where \<^verbatim>\<open>health_factor\<close> is positive).
\<close>

theorem charge_bounds_preserved:
  "(0 \<le> current_charge_kwh b \<longrightarrow> 0 \<le> current_charge_kwh (snd (consume_energy b d s g))) \<and>
   current_charge_kwh (snd (charge b e)) \<le> capacity_kwh (snd (charge b e)) \<and>
   (charge_invariant b \<and> list_all op_in_range ops \<and> cycles b + real (length ops) / 10 < 6000
      \<longrightarrow> charge_invariant (run_ops b ops))"
  using consume_energy_lower run_ops_invariant by (simp add: charge_fields)

text \<open>C6, witness: a new 2.5 kWh battery and a sequence of four calls.\<close>

theorem charge_bounds_preserved_witness:
  "0 \<le> current_charge_kwh (BatteryModel 2.5) \<and> charge_invariant (BatteryModel 2.5) \<and>
   list_all op_in_range sample_ops \<and>
   cycles (BatteryModel 2.5) + real (length sample_ops) / 10 < 6000 \<and>
   0 \<le> current_charge_kwh (snd (consume_energy (BatteryModel 2.5) 1000 15 (- 3))) \<and>
   charge_invariant (run_ops (BatteryModel 2.5) sample_ops)"
proof -
  have h: "0 \<le> current_charge_kwh (BatteryModel 2.5) \<and> charge_invariant (BatteryModel 2.5) \<and>
   list_all op_in_range sample_ops \<and>
   cycles (BatteryModel 2.5) + real (length sample_ops) / 10 < 6000"
    by (simp add: BatteryModel_def charge_invariant_def sample_ops_def)
  with charge_bounds_preserved [of "BatteryModel 2.5" 1000 15 "- 3" 0 sample_ops]
  show ?thesis by blast
qed

text \<open>C6, counterexample to the claim as stated (arbitrary arguments): on a full battery,
  \<^verbatim>\<open>consume_energy(1000, 10, -40)\<close> computes a negative consumption and subtracts it, which
  puts the charge above the capacity.\<close>

theorem consume_energy_exceeds_capacity:
  "charge_invariant (BatteryModel 2.5) \<and>
   \<not> charge_invariant (snd (consume_energy (BatteryModel 2.5) 1000 10 (- 40)))"
  by (simp add: charge_invariant_def consume_energy_def calculate_consumption_def
      BatteryModel_def battery_consts Let_def power2_eq_square update_health_def get_percentage_def)

subsection \<open>The health field\<close>

lemma update_health_spec:
  "update_health b = Inr b' \<Longrightarrow>
   b' = b\<lparr>health := health_classification_spec (current_charge_kwh b / capacity_kwh b)\<rparr>"
  by (auto simp: update_health_def health_classification_spec_def Let_def split: if_splits)

lemma consume_energy_health:
  assumes "consume_energy b d s g = (Inr r, b')" "success r"
  shows "health b' = health_classification_spec (current_charge_kwh b' / capacity_kwh b')"
  using assms
  by (auto simp: consume_energy_def Let_def get_percentage_def
      split: if_splits sum.splits dest!: update_health_spec)

text \<open>
  C7, the code at the failing input. A new 2.5 kWh battery after
  \<^verbatim>\<open>consume_energy(28000, 10, 0)\<close> holds 461/750 kWh and health POOR (lemma
  \<open>drained_battery_eq\<close>). \<^verbatim>\<open>charge(2)\<close> then fills it to the capacity, ratio 1, and leaves
  the health field POOR: \<^verbatim>\<open>charge\<close> does not call \<^verbatim>\<open>_update_health\<close>, which
  \<^verbatim>\<open>consume_energy\<close> does (lemma \<open>consume_energy_health\<close>).
\<close>

theorem charge_leaves_health_stale:
  "health (snd (charge drained_battery 2)) = POOR \<and>
   health_classification_spec
     (current_charge_kwh (snd (charge drained_battery 2)) /
      capacity_kwh (snd (charge drained_battery 2))) = EXCELLENT"
  by (simp add: drained_battery_eq charge_def BatteryModel_def get_percentage_def Let_def
      health_classification_spec_def)

subsection \<open>Charging by zero\<close>

text \<open>
  C9, as the code has it. On a battery whose charge is at most its capacity, \<^verbatim>\<open>charge(0)\<close>
  changes nothing but the charging flag, which it sets to false; so it is a no-op on such
  a battery exactly when the battery is not charging.
\<close>

theorem charge_zero:
  "current_charge_kwh b \<le> capacity_kwh b \<Longrightarrow>
   snd (charge b 0) = b\<lparr>charging := False\<rparr> \<and> (\<not> charging b \<longrightarrow> snd (charge b 0) = b)"
  by (auto simp: charge_def Let_def get_percentage_def min_def)

text \<open>C9, witness: a new 2.5 kWh battery.\<close>

theorem charge_zero_witness:
  "current_charge_kwh (BatteryModel 2.5) \<le> capacity_kwh (BatteryModel 2.5) \<and>
   \<not> charging (BatteryModel 2.5) \<and>
   snd (charge (BatteryModel 2.5) 0) = BatteryModel 2.5"
proof -
  have h: "current_charge_kwh (BatteryModel 2.5) \<le> capacity_kwh (BatteryModel 2.5)"
    and g: "\<not> charging (BatteryModel 2.5)"
    by (simp_all add: BatteryModel_def)
  from charge_zero [OF h] g show ?thesis using h by blast
qed

text \<open>C9, counterexample to the claim as stated (every battery state): the battery that
  \<^verbatim>\<open>charge(1)\<close> left charging is no longer charging after \<^verbatim>\<open>charge(0)\<close>.\<close>

theorem charge_zero_clears_charging:
  "charging charging_battery \<and> \<not> charging (snd (charge charging_battery 0))"
  by (simp add: charging_battery_def charge_def BatteryModel_def get_percentage_def Let_def)

section \<open>Properties of the connection registry\<close>

lemma one_subscriber_eq:
  "active_connections one_subscriber = [''R001'' \<mapsto> {1}]"
  by (simp add: one_subscriber_def connect_def ConnectionManager_def)

lemma registry_invariant_alt:
  "registry_invariant m \<longleftrightarrow> (\<forall>rid s. active_connections m rid = Some s \<longrightarrow> s \<noteq> {})"
  by (auto simp: registry_invariant_def ran_def)

text \<open>What holds of the claim: \<^verbatim>\<open>connect\<close> and \<^verbatim>\<open>disconnect\<close> preserve the invariant,
  \<^verbatim>\<open>disconnect\<close> of the last subscriber deletes the entry, and a broadcast to a robot without
  an entry sends nothing and changes nothing.\<close>

lemma connect_invariant: "registry_invariant m \<Longrightarrow> registry_invariant (connect m ws rid)"
  by (auto simp: registry_invariant_alt connect_def split: option.splits if_splits)

lemma disconnect_invariant: "registry_invariant m \<Longrightarrow> registry_invariant (disconnect m ws rid)"
  by (auto simp: registry_invariant_alt disconnect_def Let_def split: option.splits if_splits)

lemma disconnect_last:
  "active_connections m rid = Some {ws} \<Longrightarrow> active_connections (disconnect m ws rid) rid = None"
  by (simp add: disconnect_def)

lemma broadcast_no_entry:
  "active_connections m rid = None \<Longrightarrow> broadcast_robot_state m rid send_fails = ({}, m)"
  by (simp add: broadcast_robot_state_def)

text \<open>The broadcast keeps the invariant exactly when at least one send succeeds.\<close>

lemma broadcast_invariant_iff:
  assumes "registry_invariant m" "active_connections m rid = Some s"
  shows "registry_invariant (snd (broadcast_robot_state m rid send_fails)) \<longleftrightarrow>
         (\<exists>ws \<in> s. \<not> send_fails ws)"
  using assms
  by (auto simp: registry_invariant_alt broadcast_robot_state_def Let_def split: if_splits)

text \<open>
  C10, the code at the failing input. The registry holds one subscriber for robot
  \<^verbatim>\<open>R001\<close> and satisfies the invariant. A broadcast on which the send to that subscriber
  fails attempts the one delivery and then leaves \<^verbatim>\<open>R001\<close> mapped to the empty set: the
  invariant is lost. \<^verbatim>\<open>disconnect\<close> of the same subscriber deletes the entry.
\<close>

theorem broadcast_leaves_empty_entry:
  "registry_invariant one_subscriber \<and>
   fst (broadcast_robot_state one_subscriber ''R001'' (\<lambda>ws. True)) = {1} \<and>
   active_connections (snd (broadcast_robot_state one_subscriber ''R001'' (\<lambda>ws. True))) ''R001''
     = Some {} \<and>
   \<not> registry_invariant (snd (broadcast_robot_state one_subscriber ''R001'' (\<lambda>ws. True))) \<and>
   active_connections (disconnect one_subscriber 1 ''R001'') ''R001'' = None"
  by (auto simp: registry_invariant_def one_subscriber_eq broadcast_robot_state_def
      disconnect_def Let_def ran_def)

section \<open>Properties of the mission controller\<close>

subsection \<open>Evaluating \<^verbatim>\<open>start_delivery\<close>\<close>

lemma haversine_same: "haversine_distance p p = Inr 0"
  by (simp add: haversine_distance_def Let_def atan2_def radians_def)

lemma calculate_path_distance_same: "calculate_path_distance [p, p] = Inr 0"
  by (simp add: calculate_path_distance_def haversine_same)

lemma start_delivery_accepts:
  assumes "2 \<le> length pth" "calculate_path_distance pth = Inr d"
    "can_complete_route (battery c) d ROBOT_SPEED_KMH = Inr True"
    "get_percentage (battery c) = Inr p"
  shows "start_delivery c pickup delivery pth =
           (Delivery_started (d / 1000 / ROBOT_SPEED_KMH * 60) p d (length pth),
            create_task (cancel_and_await (initialize_state pickup delivery pth c)))"
proof -
  have "battery (create_task (cancel_and_await (initialize_state pickup delivery pth c)))
          = battery c"
    by (simp add: create_task_def cancel_and_await_def initialize_state_def split: option.splits)
  with assms show ?thesis
    by (simp add: start_delivery_def start_delivery_states_def Let_def)
qed

lemma start_delivery_started:
  assumes "start_delivery c pickup delivery pth = (Delivery_started dur pct dst n, c')"
  shows "c' = create_task (cancel_and_await (initialize_state pickup delivery pth c))"
  using assms
  by (auto simp: start_delivery_def start_delivery_states_def fail_start_def Let_def
      split: if_splits sum.splits)

lemma new_robot_check:
  "can_complete_route (battery new_robot) 0 ROBOT_SPEED_KMH = Inr True"
  "get_percentage (battery new_robot) = Inr 100"
  by (simp_all add: can_complete_route_def calculate_consumption_def get_percentage_def
      new_robot_def RobotController_def BatteryModel_def BATTERY_CAPACITY_KWH_def
      battery_consts Let_def)

lemma mission_eq:
  "mission = create_task (cancel_and_await (initialize_state depot depot [depot, depot] new_robot))"
  unfolding mission_def
  by (subst start_delivery_accepts [OF _ calculate_path_distance_same new_robot_check]) simp_all

lemma mission_fields:
  "tasks mission = [Pending]" "movement_task mission = Some 0" "path mission = [depot, depot]"
  "mode (state mission) = PICKUP" "battery mission = battery new_robot"
  "path_index (state mission) = 0" "\<not> emergency_stop_activated mission"
  "current_lat (state mission) = fst depot" "current_lon (state mission) = snd depot"
  by (simp_all add: mission_eq create_task_def cancel_and_await_def initialize_state_def
      new_robot_def RobotController_def)

lemma mission_moving: "is_moving mission"
  by (simp add: mission_eq create_task_def cancel_and_await_def initialize_state_def
      new_robot_def RobotController_def)

lemma second_start:
  "start_delivery mission origin origin [origin, origin] =
     (Delivery_started 0 100 0 2,
      create_task (cancel_and_await (initialize_state origin origin [origin, origin] mission)))"
  by (subst start_delivery_accepts [OF _ calculate_path_distance_same, where p = 100])
     (simp_all add: mission_fields new_robot_check)

subsection \<open>Replacing the movement task\<close>

lemma tracked_at_most_one:
  assumes "tracked c" shows "at_most_one_pending c"
  unfolding at_most_one_pending_def
proof (intro allI impI)
  fix i j
  assume i: "i < length (tasks c)" and j: "j < length (tasks c)"
    and p: "tasks c ! i = Pending \<and> tasks c ! j = Pending"
  from assms i p have "movement_task c = Some i" by (simp add: tracked_def)
  moreover from assms j p have "movement_task c = Some j" by (simp add: tracked_def)
  ultimately show "i = j" by simp
qed

lemma none_pending_at_most_one: "Pending \<notin> set (tasks c) \<Longrightarrow> at_most_one_pending c"
  by (metis at_most_one_pending_def nth_mem)

lemma initialize_state_tasks:
  "tasks (initialize_state pickup delivery pth c) = tasks c"
  "movement_task (initialize_state pickup delivery pth c) = movement_task c"
  by (simp_all add: initialize_state_def)

lemma tracked_initialize: "tracked c \<Longrightarrow> tracked (initialize_state pickup delivery pth c)"
  by (simp add: tracked_def initialize_state_tasks)

lemma cancel_and_await_none_pending:
  assumes "tracked c"
  shows "Pending \<notin> set (tasks (cancel_and_await c))"
proof
  assume "Pending \<in> set (tasks (cancel_and_await c))"
  then obtain i where i: "i < length (tasks (cancel_and_await c))"
    and p: "tasks (cancel_and_await c) ! i = Pending"
    by (auto simp: in_set_conv_nth)
  have len: "length (tasks (cancel_and_await c)) = length (tasks c)"
    by (simp add: cancel_and_await_def split: option.splits)
  have "tasks c ! i = Pending"
    using i p len
    by (cases "movement_task c")
       (auto simp: cancel_and_await_def nth_list_update split: if_splits)
  with assms i len have "movement_task c = Some i" by (simp add: tracked_def)
  with i p len show False
    by (auto simp: cancel_and_await_def split: if_splits)
qed

lemma create_task_tracked:
  "Pending \<notin> set (tasks c) \<Longrightarrow> tracked (create_task c)"
  by (auto simp: tracked_def create_task_def nth_append less_Suc_eq split: if_splits
      dest: nth_mem)

text \<open>
  A call of \<^verbatim>\<open>start_delivery\<close> during whose await only the cancelled task runs, on a
  controller that refers to every pending task of its own, goes through four states. First
  the shared fields are written (\<^verbatim>\<open>path\<close>, \<^verbatim>\<open>total_path\<close>, the target, \<^verbatim>\<open>path_index\<close>) while
  the tasks are as they were; then the previous task is cancelled and awaited, after which
  no task is pending; only then the new task is created, the one pending task, referred
  to by \<^verbatim>\<open>movement_task\<close>.
\<close>

lemma start_delivery_alone:
  assumes "tracked c"
    and "start_delivery c pickup delivery pth = (Delivery_started dur pct dst n, c')"
  shows "\<exists>c1 c2. start_delivery_states c pickup delivery pth = [c, c1, c2, c'] \<and>
      path c1 = pth \<and> total_path (state c1) = Some pth \<and> path_index (state c1) = 0 \<and>
      target_lat (state c1) = Some (fst delivery) \<and> target_lon (state c1) = Some (snd delivery) \<and>
      tasks c1 = tasks c \<and> movement_task c1 = movement_task c \<and>
      Pending \<notin> set (tasks c2) \<and>
      tasks c' = tasks c2 @ [Pending] \<and> movement_task c' = Some (length (tasks c2)) \<and>
      tracked c' \<and>
      (\<forall>s \<in> set (start_delivery_states c pickup delivery pth). at_most_one_pending s)"
proof -
  define c1 where "c1 = initialize_state pickup delivery pth c"
  define c2 where "c2 = cancel_and_await c1"
  from assms(2) have c': "c' = create_task c2"
    unfolding c1_def c2_def by (rule start_delivery_started)
  have states: "start_delivery_states c pickup delivery pth = [c, c1, c2, c']"
    by (simp add: start_delivery_states_def c1_def c2_def c' Let_def)
  have t1: "tracked c1" using assms(1) by (simp add: c1_def tracked_initialize)
  then have n2: "Pending \<notin> set (tasks c2)" by (simp add: c2_def cancel_and_await_none_pending)
  then have t3: "tracked c'" by (simp add: c' create_task_tracked)
  have fields: "path c1 = pth \<and> total_path (state c1) = Some pth \<and> path_index (state c1) = 0 \<and>
      target_lat (state c1) = Some (fst delivery) \<and> target_lon (state c1) = Some (snd delivery) \<and>
      tasks c1 = tasks c \<and> movement_task c1 = movement_task c"
    by (simp add: c1_def initialize_state_def)
  have new: "tasks c' = tasks c2 @ [Pending] \<and> movement_task c' = Some (length (tasks c2))"
    by (simp add: c' create_task_def)
  have "\<forall>s \<in> set [c, c1, c2, c']. at_most_one_pending s"
    using assms(1) t1 n2 t3 by (simp add: tracked_at_most_one none_pending_at_most_one)
  with states fields n2 new t3 show ?thesis by simp
qed

subsection \<open>Calls that meet at the await\<close>

text \<open>\<^verbatim>\<open>start_delivery\<close> is the validation, then the three blocks, then the return.\<close>

lemma start_delivery_validate:
  "start_delivery c pickup delivery pth =
     (case validate c pth of
        Inl msg \<Rightarrow> fail_start msg c
      | Inr d \<Rightarrow>
          finish_start d (length pth)
            (cancel_and_await (initialize_state pickup delivery pth c)))"
  by (simp add: start_delivery_def validate_def finish_start_def start_delivery_states_def
      Let_def split: sum.splits)

lemma not_done_initialize:
  "not_done (initialize_state pickup delivery pth c) = not_done c"
  by (cases "movement_task c") (simp_all add: not_done_def initialize_state_tasks)

text \<open>The event loop agrees with \<^verbatim>\<open>start_delivery\<close> on a call that no other call meets:
  when no call is suspended, a call that passes the validation, followed by the end of
  the task it cancelled (if any) and by its own resumption, leaves the controller and the
  result of \<^verbatim>\<open>start_delivery\<close>.\<close>

lemma call_alone:
  assumes "suspended l = []" "validate (controller l) pth = Inr d"
  shows "\<exists>es. run_events l (Call pickup delivery pth # es) =
           Some (return_call (start_delivery (controller l) pickup delivery pth)
                  (l\<lparr>cancel_requested := cancel_requested l @
                       (case not_done (controller l) of None \<Rightarrow> [] | Some t \<Rightarrow> [t])\<rparr>))"
proof (cases "not_done (controller l)")
  case None
  then have "cancel_and_await (initialize_state pickup delivery pth (controller l)) =
     initialize_state pickup delivery pth (controller l)"
    by (auto simp: not_done_def cancel_and_await_def initialize_state_tasks
        split: option.splits if_splits)
  moreover from None have "not_done (initialize_state pickup delivery pth (controller l)) = None"
    by (simp add: not_done_initialize)
  ultimately have "run_events l [Call pickup delivery pth] =
           Some (return_call (start_delivery (controller l) pickup delivery pth)
                  (l\<lparr>cancel_requested := cancel_requested l @
                       (case not_done (controller l) of None \<Rightarrow> [] | Some t \<Rightarrow> [t])\<rparr>))"
    using assms None by (simp add: start_delivery_validate Let_def return_call_def)
  then show ?thesis by blast
next
  case (Some t)
  let ?c1 = "initialize_state pickup delivery pth (controller l)"
  from Some have t: "movement_task (controller l) = Some t" "t < length (tasks (controller l))"
    "tasks (controller l) ! t = Pending"
    by (auto simp: not_done_def split: option.splits if_splits)
  from Some have nd: "not_done ?c1 = Some t"
    by (simp add: not_done_initialize)
  have ca: "cancel_and_await ?c1 = ?c1\<lparr>tasks := (tasks ?c1)[t := Done]\<rparr>"
    using t by (simp add: cancel_and_await_def initialize_state_tasks)
  have "run_events l [Call pickup delivery pth, Cancelled_task_runs t, Call_resumes 0] =
           Some (return_call (start_delivery (controller l) pickup delivery pth)
                  (l\<lparr>cancel_requested := cancel_requested l @
                       (case not_done (controller l) of None \<Rightarrow> [] | Some t \<Rightarrow> [t])\<rparr>))"
    using assms Some nd t
    by (simp add: start_delivery_validate Let_def return_call_def ca initialize_state_tasks)
  then show ?thesis by blast
qed

lemma validate_same:
  "battery c = battery new_robot \<Longrightarrow> validate c [p, p] = Inr 0"
  by (simp add: validate_def calculate_path_distance_same new_robot_check)

lemma finish_start_new:
  "battery c = battery new_robot \<Longrightarrow>
   finish_start 0 2 c = (Delivery_started 0 100 0 2, create_task c)"
  by (simp add: finish_start_def Let_def create_task_def new_robot_check)

lemma first_suspended_fields:
  "tasks first_suspended = [Pending]" "movement_task first_suspended = Some 0"
  "battery first_suspended = battery new_robot" "path first_suspended = [origin, origin]"
  "total_path (state first_suspended) = Some [origin, origin]"
  "target_lat (state first_suspended) = Some 0" "target_lon (state first_suspended) = Some 0"
  "path_index (state first_suspended) = 0"
  by (simp_all add: first_suspended_def initialize_state_def mission_fields origin_def)

lemma both_suspended_fields:
  "tasks both_suspended = [Pending]" "movement_task both_suspended = Some 0"
  "battery both_suspended = battery new_robot" "path both_suspended = [depot, depot]"
  by (simp_all add: both_suspended_def initialize_state_def first_suspended_fields)

lemma old_task_done_fields:
  "tasks old_task_done = [Done]" "movement_task old_task_done = Some 0"
  "battery old_task_done = battery new_robot" "path old_task_done = [depot, depot]"
  by (simp_all add: old_task_done_def both_suspended_fields)

lemma first_call_suspends:
  "advance under_way (Call origin origin [origin, origin]) =
     Some \<lparr>controller = first_suspended, cancel_requested = [0],
           suspended = [\<lparr>awaited = 0, route_distance_m = 0, path_points = 2\<rparr>],
           returned = []\<rparr>"
  by (simp add: under_way_def validate_same mission_fields Let_def not_done_def
      first_suspended_fields first_suspended_def [symmetric])

lemma second_call_suspends:
  "advance \<lparr>controller = first_suspended, cancel_requested = [0],
            suspended = [\<lparr>awaited = 0, route_distance_m = 0, path_points = 2\<rparr>],
            returned = []\<rparr>
     (Call depot depot [depot, depot]) =
     Some \<lparr>controller = both_suspended, cancel_requested = [0, 0],
           suspended = [\<lparr>awaited = 0, route_distance_m = 0, path_points = 2\<rparr>,
                        \<lparr>awaited = 0, route_distance_m = 0, path_points = 2\<rparr>],
           returned = []\<rparr>"
  by (simp add: validate_same first_suspended_fields Let_def not_done_def
      both_suspended_fields both_suspended_def [symmetric])

lemma cancelled_task_ends:
  "advance \<lparr>controller = both_suspended, cancel_requested = [0, 0],
            suspended = [\<lparr>awaited = 0, route_distance_m = 0, path_points = 2\<rparr>,
                         \<lparr>awaited = 0, route_distance_m = 0, path_points = 2\<rparr>],
            returned = []\<rparr>
     (Cancelled_task_runs 0) =
     Some \<lparr>controller = old_task_done, cancel_requested = [0, 0],
           suspended = [\<lparr>awaited = 0, route_distance_m = 0, path_points = 2\<rparr>,
                        \<lparr>awaited = 0, route_distance_m = 0, path_points = 2\<rparr>],
           returned = []\<rparr>"
  by (simp add: Let_def both_suspended_fields old_task_done_def)

lemma first_call_resumes:
  "advance \<lparr>controller = old_task_done, cancel_requested = [0, 0],
            suspended = [\<lparr>awaited = 0, route_distance_m = 0, path_points = 2\<rparr>,
                         \<lparr>awaited = 0, route_distance_m = 0, path_points = 2\<rparr>],
            returned = []\<rparr>
     (Call_resumes 0) =
     Some \<lparr>controller = create_task old_task_done, cancel_requested = [0, 0],
           suspended = [\<lparr>awaited = 0, route_distance_m = 0, path_points = 2\<rparr>],
           returned = [Delivery_started 0 100 0 2]\<rparr>"
  by (simp add: Let_def old_task_done_fields finish_start_new return_call_def)

lemma second_call_resumes:
  "advance \<lparr>controller = create_task old_task_done, cancel_requested = [0, 0],
            suspended = [\<lparr>awaited = 0, route_distance_m = 0, path_points = 2\<rparr>],
            returned = [Delivery_started 0 100 0 2]\<rparr>
     (Call_resumes 0) =
     Some \<lparr>controller = create_task (create_task old_task_done), cancel_requested = [0, 0],
           suspended = [],
           returned = [Delivery_started 0 100 0 2, Delivery_started 0 100 0 2]\<rparr>"
proof -
  have "battery (create_task old_task_done) = battery new_robot"
    "tasks (create_task old_task_done) = [Done, Pending]"
    by (simp_all add: create_task_def old_task_done_fields)
  then show ?thesis
    by (simp add: Let_def finish_start_new return_call_def)
qed

lemma run_two_calls:
  "run_events under_way two_calls =
     Some \<lparr>controller = create_task (create_task old_task_done),
           cancel_requested = [0, 0], suspended = [],
           returned = [Delivery_started 0 100 0 2, Delivery_started 0 100 0 2]\<rparr>"
  by (simp add: two_calls_def first_call_suspends second_call_suspends cancelled_task_ends
      first_call_resumes second_call_resumes del: advance.simps)

lemma two_tasks_fields:
  "tasks (create_task (create_task old_task_done)) = [Done, Pending, Pending]"
  "movement_task (create_task (create_task old_task_done)) = Some 2"
  "pending_tasks (create_task (create_task old_task_done)) = [1, 2]"
  "path (create_task (create_task old_task_done)) = [depot, depot]"
  by (simp_all add: create_task_def old_task_done_fields pending_tasks_def upt_rec)

text \<open>
  C2, the code at the failing input. A robot has its first mission under way, with the one
  pending movement task 0, and two calls of \<^verbatim>\<open>start_delivery\<close> arrive together. The first
  call passes the validation, writes \<^verbatim>\<open>path\<close>, \<^verbatim>\<open>total_path\<close>, the target and \<^verbatim>\<open>path_index\<close>
  of its mission, requests the cancellation of task 0 and is suspended at its await: the
  shared fields are written while task 0 is still pending, not after its end. The second
  call runs while the first is suspended, finds task 0 not done, and is suspended at the
  same await. When task 0 has ended, both calls resume, and each creates a movement task:
  both calls return success, tasks 1 and 2 are pending together, and the controller refers
  only to task 2.
\<close>

theorem start_delivery_calls_meet_at_await:
  "path mission = [depot, depot] \<and> pending_tasks mission = [0] \<and>
   run_events under_way [Call origin origin [origin, origin]] =
     Some \<lparr>controller = first_suspended, cancel_requested = [0],
           suspended = [\<lparr>awaited = 0, route_distance_m = 0, path_points = 2\<rparr>],
           returned = []\<rparr> \<and>
   pending_tasks first_suspended = [0] \<and>
   path first_suspended = [origin, origin] \<and>
   total_path (state first_suspended) = Some [origin, origin] \<and>
   target_lat (state first_suspended) = Some 0 \<and>
   target_lon (state first_suspended) = Some 0 \<and>
   path_index (state first_suspended) = 0 \<and>
   (\<exists>l. run_events under_way two_calls = Some l \<and>
        suspended l = [] \<and>
        returned l = [Delivery_started 0 100 0 2, Delivery_started 0 100 0 2] \<and>
        tasks (controller l) = [Done, Pending, Pending] \<and>
        pending_tasks (controller l) = [1, 2] \<and>
        movement_task (controller l) = Some 2)"
proof -
  have before: "path mission = [depot, depot] \<and> pending_tasks mission = [0]"
    by (simp add: mission_fields pending_tasks_def)
  have one: "run_events under_way [Call origin origin [origin, origin]] =
     Some \<lparr>controller = first_suspended, cancel_requested = [0],
           suspended = [\<lparr>awaited = 0, route_distance_m = 0, path_points = 2\<rparr>],
           returned = []\<rparr>"
    by (simp add: first_call_suspends del: advance.simps)
  have written: "pending_tasks first_suspended = [0] \<and>
      path first_suspended = [origin, origin] \<and>
      total_path (state first_suspended) = Some [origin, origin] \<and>
      target_lat (state first_suspended) = Some 0 \<and>
      target_lon (state first_suspended) = Some 0 \<and>
      path_index (state first_suspended) = 0"
    by (simp add: first_suspended_fields pending_tasks_def)
  have two: "\<exists>l. run_events under_way two_calls = Some l \<and>
        suspended l = [] \<and>
        returned l = [Delivery_started 0 100 0 2, Delivery_started 0 100 0 2] \<and>
        tasks (controller l) = [Done, Pending, Pending] \<and>
        pending_tasks (controller l) = [1, 2] \<and>
        movement_task (controller l) = Some 2"
    by (simp add: run_two_calls two_tasks_fields)
  from before one written two show ?thesis by blast
qed

subsection \<open>\<^verbatim>\<open>resume_mission\<close>\<close>

text \<open>
  C3, as the code has it. \<^verbatim>\<open>resume_mission\<close> is a total function (it never raises). It
  always clears the emergency flag, it sets the mode to \<^verbatim>\<open>TRANSIT\<close> exactly when the mode
  was \<^verbatim>\<open>EMERGENCY\<close>, and it changes nothing else; so it is a no-op exactly when the mode is
  not \<^verbatim>\<open>EMERGENCY\<close> and the flag is already clear.
\<close>

theorem resume_mission_effect:
  "resume_mission c =
     c\<lparr>emergency_stop_activated := False,
       state := (state c)\<lparr>mode := (if mode (state c) = EMERGENCY then TRANSIT
                                     else mode (state c))\<rparr>\<rparr> \<and>
   (resume_mission c = c \<longleftrightarrow> mode (state c) \<noteq> EMERGENCY \<and> \<not> emergency_stop_activated c)"
proof -
  have eq: "resume_mission c =
     c\<lparr>emergency_stop_activated := False,
       state := (state c)\<lparr>mode := (if mode (state c) = EMERGENCY then TRANSIT
                                     else mode (state c))\<rparr>\<rparr>"
    by (simp add: resume_mission_def Let_def)
  have "resume_mission c = c \<longleftrightarrow> mode (state c) \<noteq> EMERGENCY \<and> \<not> emergency_stop_activated c"
  proof
    assume h: "resume_mission c = c"
    have "emergency_stop_activated (resume_mission c) = False"
      by (simp add: resume_mission_def Let_def)
    moreover have "mode (state (resume_mission c)) \<noteq> EMERGENCY"
      by (simp add: resume_mission_def Let_def)
    ultimately show "mode (state c) \<noteq> EMERGENCY \<and> \<not> emergency_stop_activated c"
      using h by simp
  next
    assume "mode (state c) \<noteq> EMERGENCY \<and> \<not> emergency_stop_activated c"
    then show "resume_mission c = c" by (simp add: resume_mission_def Let_def)
  qed
  with eq show ?thesis by blast
qed

text \<open>C3, counterexample to the claim as stated (a no-op unless the mode is
  \<^verbatim>\<open>EMERGENCY\<close>). After \<^verbatim>\<open>emergency_stop()\<close> and a rejected \<^verbatim>\<open>start_delivery\<close> the mode is
  \<^verbatim>\<open>IDLE\<close> and the emergency flag is still set; \<^verbatim>\<open>resume_mission\<close> clears the flag.\<close>

theorem resume_mission_changes_idle_state:
  "mode (state stopped_then_rejected) = IDLE \<and>
   emergency_stop_activated stopped_then_rejected \<and>
   \<not> emergency_stop_activated (resume_mission stopped_then_rejected) \<and>
   resume_mission stopped_then_rejected \<noteq> stopped_then_rejected"
proof -
  have a: "mode (state stopped_then_rejected) = IDLE"
    and b: "emergency_stop_activated stopped_then_rejected"
    by (simp_all add: stopped_then_rejected_def start_delivery_def fail_start_def
        emergency_stop_def)
  have c: "\<not> emergency_stop_activated (resume_mission stopped_then_rejected)"
    by (simp add: resume_mission_def Let_def)
  from b c have "resume_mission stopped_then_rejected \<noteq> stopped_then_rejected" by metis
  with a b c show ?thesis by blast
qed

subsection \<open>Rejected missions\<close>

lemma antipode_distance: "calculate_path_distance antipode_path = Inr (6371000 * pi)"
  by (simp add: antipode_path_def calculate_path_distance_def haversine_distance_def Let_def
      radians_def atan2_def)

lemma antipode_check:
  "can_complete_route (battery new_robot) (6371000 * pi) ROBOT_SPEED_KMH = Inr False"
proof -
  have "2 \<le> pi" by (rule pi_ge_two)
  then show ?thesis
    by (simp add: can_complete_route_def calculate_consumption_def new_robot_def
        RobotController_def BatteryModel_def BATTERY_CAPACITY_KWH_def ROBOT_SPEED_KMH_def
        battery_consts Let_def power2_eq_square)
qed

text \<open>
  C4. When the path has fewer than two points, or the battery check on the distance of the
  path does not answer true, \<^verbatim>\<open>start_delivery\<close> returns a failure with a message, and the
  controller after the call is the controller before it with the mode set to \<^verbatim>\<open>IDLE\<close> and
  that message in \<^verbatim>\<open>error_message\<close>: the path, the target, \<^verbatim>\<open>path_index\<close>,
  \<^verbatim>\<open>distance_traveled_m\<close>, the battery and the tasks are as they were.
\<close>

theorem start_delivery_rejects_without_side_effect:
  assumes "length pth < 2 \<or>
     (\<exists>d. calculate_path_distance pth = Inr d \<and>
          can_complete_route (battery c) d ROBOT_SPEED_KMH \<noteq> Inr True)"
  shows "\<exists>msg. start_delivery c pickup delivery pth =
           (Start_failed msg, c\<lparr>state := (state c)\<lparr>mode := IDLE, error_message := Some msg\<rparr>\<rparr>)"
  using assms by (auto simp: start_delivery_def fail_start_def split: sum.splits)

text \<open>C4, witness: on a new robot, a path of one point, and a path of 20000 km that the
  battery check refuses.\<close>

theorem start_delivery_rejects_without_side_effect_witness:
  "length [depot] < 2 \<and>
   (\<exists>msg. start_delivery new_robot depot depot [depot] =
      (Start_failed msg,
       new_robot\<lparr>state := (state new_robot)\<lparr>mode := IDLE, error_message := Some msg\<rparr>\<rparr>)) \<and>
   calculate_path_distance antipode_path = Inr (6371000 * pi) \<and>
   can_complete_route (battery new_robot) (6371000 * pi) ROBOT_SPEED_KMH \<noteq> Inr True \<and>
   (\<exists>msg. start_delivery new_robot origin (0, 180) antipode_path =
      (Start_failed msg,
       new_robot\<lparr>state := (state new_robot)\<lparr>mode := IDLE, error_message := Some msg\<rparr>\<rparr>))"
proof -
  have short: "length [depot] < 2" by simp
  have far: "calculate_path_distance antipode_path = Inr (6371000 * pi) \<and>
      can_complete_route (battery new_robot) (6371000 * pi) ROBOT_SPEED_KMH \<noteq> Inr True"
    by (simp add: antipode_distance antipode_check)
  from short
    start_delivery_rejects_without_side_effect [of "[depot]" new_robot depot depot]
    far
    start_delivery_rejects_without_side_effect [of antipode_path new_robot origin "(0, 180)"]
  show ?thesis by blast
qed

section \<open>Properties of the movement task\<close>

declare move_along_path.simps [simp del]

subsection \<open>The modes a mission can reach\<close>

lemma substeps_loop_keeps:
  "substeps_loop env st tg d cs steps ks c = (r, c') \<Longrightarrow>
   path c' = path c \<and> path_index (state c') = path_index (state c) \<and>
   (mode (state c') = mode (state c) \<or>
    mode (state c') = EMERGENCY \<and> emergency_stop_activated c')"
proof (induction ks arbitrary: c)
  case Nil
  then show ?case by simp
next
  case (Cons k ks)
  show ?case
  proof (cases "emergency_stop_activated c")
    case True
    with Cons.prems show ?thesis by simp
  next
    case False
    with Cons.prems show ?thesis
      by (auto simp: Let_def split: prod.splits sum.splits consume_result.splits
          dest!: Cons.IH)
  qed
qed

lemma move_to_point_keeps:
  "move_to_point env tg c = (r, c') \<Longrightarrow>
   path c' = path c \<and> path_index (state c') = path_index (state c) \<and>
   (mode (state c') = mode (state c) \<or>
    mode (state c') = EMERGENCY \<and> emergency_stop_activated c')"
  by (auto simp: move_to_point_def Let_def split: sum.splits dest!: substeps_loop_keeps)

text \<open>One pass from the mode \<^verbatim>\<open>PICKUP\<close> leaves \<^verbatim>\<open>PICKUP\<close>, or it leaves \<^verbatim>\<open>TRANSIT\<close> or
  \<^verbatim>\<open>EMERGENCY\<close> with the loop condition false.\<close>

lemma loop_body_from_pickup:
  assumes "loop_body env c = (r, c')" "mode (state c) = PICKUP" "loop_condition c"
  shows "mode (state c') = PICKUP \<or>
         (mode (state c') = TRANSIT \<or> mode (state c') = EMERGENCY) \<and>
         (r = None \<longrightarrow> \<not> loop_condition c')"
  using assms
  by (auto simp: loop_body_def loop_condition_def handle_obstacle_def Let_def
      final_waypoint_transition_def
      split: if_splits prod.splits option.splits dest!: move_to_point_keeps)

lemma move_along_path_stops: "\<not> loop_condition c \<Longrightarrow> move_along_path envs c = Some []"
  by (subst move_along_path.simps) (auto simp: loop_condition_def)

text \<open>Whatever the inputs and the path, the movement task of a mission, which
  \<^verbatim>\<open>start_delivery\<close> begins in the mode \<^verbatim>\<open>PICKUP\<close>, never enters \<^verbatim>\<open>DELIVERY\<close>, \<^verbatim>\<open>RETURN\<close> or
  \<^verbatim>\<open>IDLE\<close>: after the transition to \<^verbatim>\<open>TRANSIT\<close> at the last point the loop ends.\<close>

lemma run_modes:
  "mode (state c) = PICKUP \<Longrightarrow> move_along_path envs c = Some run \<Longrightarrow>
   \<forall>c' \<in> set run. mode (state c') \<in> {PICKUP, TRANSIT, EMERGENCY}"
proof (induction envs arbitrary: c run)
  case Nil
  then show ?case
    by (subst (asm) move_along_path.simps) (auto split: if_splits)
next
  case (Cons env later)
  show ?case
  proof (cases "loop_condition c")
    case False
    with Cons.prems(2) show ?thesis by (simp add: move_along_path_stops)
  next
    case True
    obtain r c1 where body: "loop_body env c = (r, c1)" by (cases "loop_body env c")
    note step = loop_body_from_pickup [OF body Cons.prems(1) True]
    show ?thesis
    proof (cases r)
      case (Some e)
      with Cons.prems(2) True body show ?thesis
        by (subst (asm) move_along_path.simps) (auto simp: loop_condition_def)
    next
      case None
      with Cons.prems(2) True body obtain rest where
        rest: "move_along_path later c1 = Some rest" and run: "run = c1 # rest"
        by (subst (asm) move_along_path.simps) (auto simp: loop_condition_def)
      show ?thesis
      proof (cases "mode (state c1) = PICKUP")
        case True
        with rest Cons.IH run show ?thesis by auto
      next
        case False
        with step None have "\<not> loop_condition c1"
          and m: "mode (state c1) = TRANSIT \<or> mode (state c1) = EMERGENCY" by auto
        with rest have "rest = []" by (simp add: move_along_path_stops)
        with run m show ?thesis by auto
      qed
    qed
  qed
qed

subsection \<open>The run of a mission without obstacles\<close>

lemma quiet_fields:
  "obstacle_hour quiet = 12" "obstacle_draw quiet = 0.5"
  "hour_of_day (segment quiet) = 12" "speed_jitter (segment quiet) = 1"
  "substep (segment quiet) k = quiet_substep"
  by (simp_all add: quiet_def)

lemma no_obstacle: "\<not> check_obstacles (obstacle_hour quiet) (obstacle_draw quiet)"
  by (simp add: quiet_fields check_obstacles_def)

lemma consume_nothing:
  "consume_energy (battery new_robot) 0 s g =
     (Inr (Consumed 0 2.5 100), battery new_robot)"
  by (simp add: consume_energy_def calculate_consumption_def update_health_def
      get_percentage_def new_robot_def RobotController_def BatteryModel_def
      BATTERY_CAPACITY_KWH_def battery_consts Let_def)

lemma move_quiet:
  "move_to_point (segment quiet) depot mission =
     (None, mission\<lparr>state := (state mission)\<lparr>current_speed_kmh := 8,
                        battery_percentage := 100, last_update := 0\<rparr>\<rparr>)"
  by (simp add: move_to_point_def mission_fields haversine_same Let_def
      get_road_type_speed_def speed_limits_def get_traffic_factor_def quiet_fields
      quiet_substep_def consume_nothing)

lemma loop_body_quiet: "loop_body quiet mission = (None, arrived)"
proof -
  have c1: "mission\<lparr>state := (state mission)\<lparr>obstacle_detected := False\<rparr>\<rparr> = mission"
    by (simp add: mission_eq create_task_def cancel_and_await_def initialize_state_def
        new_robot_def RobotController_def RobotState_def)
  show ?thesis
    by (simp add: loop_body_def no_obstacle c1 mission_fields move_quiet Let_def
        final_waypoint_transition_def arrived_def)
qed

lemma arrived_fields:
  "path_index (state arrived) = 1" "path arrived = [depot, depot]"
  "mode (state arrived) = TRANSIT" "is_moving arrived"
  by (simp_all add: arrived_def mission_fields mission_moving)

lemma run_quiet: "move_along_path [quiet, quiet, quiet] mission = Some [arrived]"
proof -
  have stop: "move_along_path [quiet, quiet] arrived = Some []"
    by (subst move_along_path.simps) (simp add: arrived_fields)
  show ?thesis
    by (subst move_along_path.simps) (simp add: mission_fields loop_body_quiet stop)
qed

text \<open>
  C1, the code at the failing input. On a new robot \<^verbatim>\<open>start_delivery\<close> accepts the path of
  two points and leaves the mode \<^verbatim>\<open>PICKUP\<close>. With no obstacle, no emergency stop and a
  battery that suffices, the movement task makes one pass, reaches the last point of the
  path, sets the mode to \<^verbatim>\<open>TRANSIT\<close> and ends there, although two more passes of input are at
  hand: the modes of the run are \<^verbatim>\<open>PICKUP\<close>, \<^verbatim>\<open>TRANSIT\<close>, and \<^verbatim>\<open>is_moving\<close> is still true.
  \<^verbatim>\<open>DELIVERY\<close>, \<^verbatim>\<open>RETURN\<close> and \<^verbatim>\<open>IDLE\<close> are not entered (for every path and input: lemma
  \<open>run_modes\<close>).
\<close>

theorem mission_ends_in_transit:
  "fst (start_delivery new_robot depot depot [depot, depot]) = Delivery_started 0 100 0 2 \<and>
   mode (state mission) = PICKUP \<and>
   map_option (modes_of_run mission) (move_along_path [quiet, quiet, quiet] mission)
     = Some [PICKUP, TRANSIT] \<and>
   map_option (\<lambda>run. is_moving (last run)) (move_along_path [quiet, quiet, quiet] mission)
     = Some True"
proof -
  have "start_delivery new_robot depot depot [depot, depot] = (Delivery_started 0 100 0 2, mission)"
    unfolding mission_def
    by (subst start_delivery_accepts [OF _ calculate_path_distance_same new_robot_check])
       (simp_all add: start_delivery_accepts [OF _ calculate_path_distance_same new_robot_check])
  then show ?thesis
    by (simp add: run_quiet modes_of_run_def mission_fields arrived_fields)
qed

section \<open>Properties of the edge costs and the heuristics of A*\<close>

subsection \<open>The great-circle distance\<close>

text \<open>The determinant of the inner products of three vectors is the square of the
  determinant of the vectors.\<close>

lemma gram_identity:
  fixes a1 a2 a3 b1 b2 b3 c1 c2 c3 :: real
  shows "(a1\<^sup>2 + a2\<^sup>2 + a3\<^sup>2) * (b1\<^sup>2 + b2\<^sup>2 + b3\<^sup>2) * (c1\<^sup>2 + c2\<^sup>2 + c3\<^sup>2)
        + 2 * (a1*b1 + a2*b2 + a3*b3) * (b1*c1 + b2*c2 + b3*c3) * (a1*c1 + a2*c2 + a3*c3)
        - (a1\<^sup>2 + a2\<^sup>2 + a3\<^sup>2) * (b1*c1 + b2*c2 + b3*c3)\<^sup>2
        - (b1\<^sup>2 + b2\<^sup>2 + b3\<^sup>2) * (a1*c1 + a2*c2 + a3*c3)\<^sup>2
        - (c1\<^sup>2 + c2\<^sup>2 + c3\<^sup>2) * (a1*b1 + a2*b2 + a3*b3)\<^sup>2
        = (a1 * (b2 * c3 - b3 * c2) - a2 * (b1 * c3 - b3 * c1) + a3 * (b1 * c2 - b2 * c1))\<^sup>2"
  by algebra

lemma unit_norm:
  "(cos f * cos l)\<^sup>2 + (cos f * sin l)\<^sup>2 + (sin f)\<^sup>2 = (1::real)"
proof -
  have "(cos f * cos l)\<^sup>2 + (cos f * sin l)\<^sup>2 = (cos f)\<^sup>2 * ((sin l)\<^sup>2 + (cos l)\<^sup>2)"
    by algebra
  then show ?thesis by simp
qed

lemma haversine_a_dotp: "1 - 2 * haversine_a p q = dotp p q"
proof -
  define f1 where "f1 = radians (fst p)"
  define f2 where "f2 = radians (fst q)"
  define l1 where "l1 = radians (snd p)"
  define l2 where "l2 = radians (snd q)"
  have df: "radians (fst q - fst p) = f2 - f1" and dl: "radians (snd q - snd p) = l2 - l1"
    by (simp_all add: radians_def f1_def f2_def l1_def l2_def diff_divide_distrib left_diff_distrib)
  have half: "2 * (sin (w / 2))\<^sup>2 = 1 - cos w" for w :: real
  proof -
    define h where "h = w / 2"
    then have "w = 2 * h" by simp
    then show ?thesis unfolding h_def [symmetric] by (simp add: cos_double_sin)
  qed
  note s1 = half [of "f2 - f1"] and s2 = half [of "l2 - l1"]
  have "1 - 2 * haversine_a p q =
      1 - (2 * (sin ((f2 - f1) / 2))\<^sup>2) - cos f1 * cos f2 * (2 * (sin ((l2 - l1) / 2))\<^sup>2)"
    unfolding haversine_a_def df dl f1_def [symmetric] f2_def [symmetric]
    by (simp add: algebra_simps)
  also have "\<dots> = cos (f2 - f1) - cos f1 * cos f2 * (1 - cos (l2 - l1))"
    unfolding s1 s2 by simp
  also have "\<dots> = dotp p q"
    unfolding dotp_def f1_def [symmetric] f2_def [symmetric] l1_def [symmetric] l2_def [symmetric]
    by (simp add: cos_diff algebra_simps)
  finally show ?thesis .
qed


lemma dot_le_one:
  fixes a1 a2 a3 b1 b2 b3 :: real
  assumes "a1\<^sup>2 + a2\<^sup>2 + a3\<^sup>2 = 1" "b1\<^sup>2 + b2\<^sup>2 + b3\<^sup>2 = 1"
  shows "a1 * b1 + a2 * b2 + a3 * b3 \<le> 1" and "- 1 \<le> a1 * b1 + a2 * b2 + a3 * b3"
proof -
  have "0 \<le> (a1 - b1)\<^sup>2 + (a2 - b2)\<^sup>2 + (a3 - b3)\<^sup>2" by simp
  also have "\<dots> = (a1\<^sup>2 + a2\<^sup>2 + a3\<^sup>2) + (b1\<^sup>2 + b2\<^sup>2 + b3\<^sup>2) - 2 * (a1 * b1 + a2 * b2 + a3 * b3)"
    by algebra
  finally show "a1 * b1 + a2 * b2 + a3 * b3 \<le> 1" using assms by simp
  have "0 \<le> (a1 + b1)\<^sup>2 + (a2 + b2)\<^sup>2 + (a3 + b3)\<^sup>2" by simp
  also have "\<dots> = (a1\<^sup>2 + a2\<^sup>2 + a3\<^sup>2) + (b1\<^sup>2 + b2\<^sup>2 + b3\<^sup>2) + 2 * (a1 * b1 + a2 * b2 + a3 * b3)"
    by algebra
  finally show "- 1 \<le> a1 * b1 + a2 * b2 + a3 * b3" using assms by simp
qed

lemma dotp_bounds: "dotp p q \<le> 1" "- 1 \<le> dotp p q"
  unfolding dotp_def by (rule dot_le_one [OF unit_norm unit_norm])+

lemma dotp_gram:
  "0 \<le> 1 + 2 * dotp p q * dotp q r * dotp p r - (dotp q r)\<^sup>2 - (dotp p r)\<^sup>2 - (dotp p q)\<^sup>2"
proof -
  define a1 where "a1 = cos (radians (fst p)) * cos (radians (snd p))"
  define a2 where "a2 = cos (radians (fst p)) * sin (radians (snd p))"
  define a3 where "a3 = sin (radians (fst p))"
  define b1 where "b1 = cos (radians (fst q)) * cos (radians (snd q))"
  define b2 where "b2 = cos (radians (fst q)) * sin (radians (snd q))"
  define b3 where "b3 = sin (radians (fst q))"
  define c1 where "c1 = cos (radians (fst r)) * cos (radians (snd r))"
  define c2 where "c2 = cos (radians (fst r)) * sin (radians (snd r))"
  define c3 where "c3 = sin (radians (fst r))"
  have na: "a1\<^sup>2 + a2\<^sup>2 + a3\<^sup>2 = 1" and nb: "b1\<^sup>2 + b2\<^sup>2 + b3\<^sup>2 = 1"
    and nc: "c1\<^sup>2 + c2\<^sup>2 + c3\<^sup>2 = 1"
    unfolding a1_def a2_def a3_def b1_def b2_def b3_def c1_def c2_def c3_def
    by (rule unit_norm)+
  have pq: "dotp p q = a1 * b1 + a2 * b2 + a3 * b3"
    and qr: "dotp q r = b1 * c1 + b2 * c2 + b3 * c3"
    and pr: "dotp p r = a1 * c1 + a2 * c2 + a3 * c3"
    by (simp_all add: dotp_def a1_def a2_def a3_def b1_def b2_def b3_def c1_def c2_def c3_def)
  have "0 \<le> (a1 * (b2 * c3 - b3 * c2) - a2 * (b1 * c3 - b3 * c1) + a3 * (b1 * c2 - b2 * c1))\<^sup>2"
    by simp
  then show ?thesis
    unfolding gram_identity [of a1 a2 a3 b1 b2 b3 c1 c2 c3, symmetric] na nb nc pq qr pr
    by simp
qed

lemma haversine_a_bounds: "0 \<le> haversine_a p q" "haversine_a p q \<le> 1"
  using dotp_bounds [of p q] haversine_a_dotp [of p q] by simp_all

lemma cos_double_atan2:
  assumes "0 \<le> a" "a \<le> 1"
  shows "cos (2 * atan2 (sqrt a) (sqrt (1 - a))) = 1 - 2 * a"
    and "0 \<le> 2 * atan2 (sqrt a) (sqrt (1 - a))"
    and "2 * atan2 (sqrt a) (sqrt (1 - a)) \<le> pi"
proof -
  show "cos (2 * atan2 (sqrt a) (sqrt (1 - a))) = 1 - 2 * a"
  proof (cases "a = 1")
    case True
    then show ?thesis by (simp add: atan2_def)
  next
    case False
    with assms have pos: "0 < 1 - a" by simp
    define t where "t = sqrt a / sqrt (1 - a)"
    have t2: "t\<^sup>2 = a / (1 - a)"
      using assms pos by (simp add: t_def power_divide)
    have "1 + t\<^sup>2 = 1 / (1 - a)"
      using pos by (simp add: t2 field_simps)
    then have c2: "(cos (arctan t))\<^sup>2 = 1 - a"
      using pos by (simp add: cos_arctan power_divide)
    have "atan2 (sqrt a) (sqrt (1 - a)) = arctan t"
      using pos by (simp add: atan2_def t_def)
    then show ?thesis
      by (simp add: cos_double_cos c2)
  qed
  show "0 \<le> 2 * atan2 (sqrt a) (sqrt (1 - a))"
    using assms pi_ge_zero by (auto simp: atan2_def)
  show "2 * atan2 (sqrt a) (sqrt (1 - a)) \<le> pi"
  proof (cases "a = 1")
    case True
    then show ?thesis by (simp add: atan2_def)
  next
    case False
    with assms have pos: "0 < 1 - a" by simp
    have "arctan (sqrt a / sqrt (1 - a)) < pi / 2" by (rule arctan_ubound)
    with pos show ?thesis by (simp add: atan2_def)
  qed
qed

lemma central_angle_props:
  "cos (central_angle p q) = dotp p q" "0 \<le> central_angle p q" "central_angle p q \<le> pi"
  unfolding central_angle_def
  using cos_double_atan2 [OF haversine_a_bounds, of p q] haversine_a_dotp [of p q]
  by simp_all

lemma haversine_distance_eq:
  "haversine_distance p q = Inr (6371000 * central_angle p q)"
  using haversine_a_bounds [of p q]
  by (simp add: haversine_distance_def Let_def haversine_a_def [symmetric] central_angle_def [symmetric])

lemma central_angle_triangle:
  "central_angle p r \<le> central_angle p q + central_angle q r"
proof (cases "central_angle p q + central_angle q r \<le> pi")
  case False
  with central_angle_props(3) [of p r] show ?thesis by simp
next
  case True
  define x where "x = dotp p q"
  define y where "y = dotp q r"
  define z where "z = dotp p r"
  define s1 where "s1 = sin (central_angle p q)"
  define s2 where "s2 = sin (central_angle q r)"
  have s1: "0 \<le> s1" and s2: "0 \<le> s2"
    unfolding s1_def s2_def by (simp_all add: sin_ge_zero central_angle_props)
  have q1: "s1\<^sup>2 = 1 - x\<^sup>2" and q2: "s2\<^sup>2 = 1 - y\<^sup>2"
    unfolding s1_def s2_def x_def y_def
    by (simp_all add: sin_squared_eq central_angle_props)
  have "0 \<le> 1 + 2 * x * y * z - y\<^sup>2 - z\<^sup>2 - x\<^sup>2"
    unfolding x_def y_def z_def by (rule dotp_gram)
  also have "\<dots> = (1 - x\<^sup>2) * (1 - y\<^sup>2) - (x * y - z)\<^sup>2" by algebra
  finally have "(x * y - z)\<^sup>2 \<le> (s1 * s2)\<^sup>2"
    by (simp add: power_mult_distrib q1 q2)
  then have "x * y - z \<le> s1 * s2"
    using s1 s2 by (meson mult_nonneg_nonneg power2_le_imp_le)
  then have "cos (central_angle p q + central_angle q r) \<le> cos (central_angle p r)"
    by (simp add: cos_add central_angle_props x_def y_def z_def s1_def s2_def)
  moreover have "0 \<le> central_angle p q + central_angle q r"
    by (simp add: central_angle_props)
  ultimately show ?thesis
    using True central_angle_props(2,3) [of p r]
    by (simp add: cos_mono_le_eq)
qed

lemma haversine_a_sym: "haversine_a p q = haversine_a q p"
proof -
  have neg: "radians (x - y) / 2 = - (radians (y - x) / 2)" for x y
    by (simp add: radians_def field_simps)
  have "(sin (radians (x - y) / 2))\<^sup>2 = (sin (radians (y - x) / 2))\<^sup>2" for x y
    unfolding neg [of x y] sin_minus by simp
  then show ?thesis by (simp add: haversine_a_def mult.commute)
qed

lemma haversine_distance_sym: "haversine_distance p q = haversine_distance q p"
  by (simp add: haversine_distance_eq central_angle_def haversine_a_sym)

lemma haversine_distance_triangle:
  "\<exists>d1 d2 d3. haversine_distance p q = Inr d1 \<and> haversine_distance q r = Inr d2 \<and>
      haversine_distance p r = Inr d3 \<and> 0 \<le> d1 \<and> d3 \<le> d1 + d2"
  using central_angle_triangle [of p r q] central_angle_props(2) [of p q]
  by (simp add: haversine_distance_eq)

subsection \<open>The edge costs\<close>

lemma weight_factor_table:
  "weight_factor name =
     (if name = ''motorway'' \<or> name = ''trunk'' then 1.0
      else if name = ''primary'' \<or> name = ''secondary'' then 1.2
      else if name = ''tertiary'' \<or> name = ''residential'' then 1.5
      else if name = ''service'' \<or> name = ''unclassified'' then 2.0
      else if name = ''path'' \<or> name = ''footway'' then 3.0
      else 1.5)"
  by (simp add: weight_factor_def road_type_weights_def)

lemma weight_factor_ge_one: "1 \<le> weight_factor name"
  by (simp add: weight_factor_table)


lemma weight_ge_length:
  assumes "weight d = Inr w" "0 \<le> edge_length d"
  shows "edge_length d \<le> w"
proof -
  from assms(1) obtain name where w: "w = edge_length d * weight_factor name"
    by (auto simp: weight_def Let_def split: option.splits highway_tag.splits list.splits)
  from assms(2) weight_factor_ge_one [of name]
  have "edge_length d * 1 \<le> edge_length d * weight_factor name"
    by (rule mult_left_mono [rotated])
  with w show ?thesis by simp
qed

subsection \<open>The heuristic of \<^verbatim>\<open>MapService._osm_route\<close>\<close>

lemma osm_heuristic_triangle:
  assumes "osm_heuristic g u b = Inr h1" "osm_heuristic g u v = Inr h"
  shows "\<exists>h2. osm_heuristic g b v = Inr h2 \<and> 0 \<le> h1 \<and> h \<le> h1 + h2"
proof -
  from assms obtain pu pb pv where n: "nodes g u = Some pu" "nodes g b = Some pb"
    "nodes g v = Some pv"
    by (auto simp: osm_heuristic_def split: option.splits)
  from haversine_distance_triangle [of "(snd pu, fst pu)" "(snd pb, fst pb)" "(snd pv, fst pv)"]
  show ?thesis using assms n by (auto simp: osm_heuristic_def)
qed

lemma osm_heuristic_refl: "osm_heuristic g u u = Inr h \<Longrightarrow> h = 0"
  by (auto simp: osm_heuristic_def haversine_same split: option.splits)

lemma osm_heuristic_admissible:
  assumes "edges_span_great_circle g"
  shows "is_path g u es v \<Longrightarrow> osm_heuristic g u v = Inr h \<Longrightarrow> path_cost es = Inr c \<Longrightarrow>
         h \<le> osm_path_cost es \<and> osm_path_cost es \<le> c"
proof (induction es arbitrary: u h c)
  case Nil
  then show ?case by (auto simp: osm_path_cost_def dest: osm_heuristic_refl)
next
  case (Cons e es)
  from Cons.prems(1) have e: "e \<in> set (edges g)" and src: "fst e = u"
    and rest: "is_path g (fst (snd e)) es v" by simp_all
  from assms e src obtain h1 where h1: "osm_heuristic g u (fst (snd e)) = Inr h1"
    and le1: "h1 \<le> edge_length (snd (snd e))"
    by (auto simp: edges_span_great_circle_def)
  from Cons.prems(3) obtain w c' where w: "weight (snd (snd e)) = Inr w"
    and c': "path_cost es = Inr c'" and c: "c = w + c'"
    by (auto split: sum.splits)
  from osm_heuristic_triangle [OF h1 Cons.prems(2)] obtain h2
    where h2: "osm_heuristic g (fst (snd e)) v = Inr h2" and p1: "0 \<le> h1" and tri: "h \<le> h1 + h2"
    by blast
  from Cons.IH [OF rest h2 c'] have ih: "h2 \<le> osm_path_cost es" "osm_path_cost es \<le> c'"
    by simp_all
  from p1 le1 have "0 \<le> edge_length (snd (snd e))" by simp
  with w have wl: "edge_length (snd (snd e)) \<le> w" by (rule weight_ge_length)
  have "osm_path_cost (e # es) = edge_length (snd (snd e)) + osm_path_cost es"
    by (simp add: osm_path_cost_def osm_weight_def)
  with ih wl tri le1 c show ?case by simp
qed

subsection \<open>The fallback graph\<close>

lemma grid_nodes_inside:
  "i < grid_size \<Longrightarrow> j < grid_size \<Longrightarrow>
   grid_nodes center_lat center_lon (i, j) =
     Some (center_lon + (real j - 5) * 0.001, center_lat + (real i - 5) * 0.001)"
  by (simp add: grid_nodes_def grid_size_def step_def Let_def)

lemma connect_nodes_inside:
  assumes "ns node1 = Some d1" "ns node2 = Some d2"
  shows "connect_nodes ns node1 node2 =
     Inr [(node1, node2, residential (6371000 * central_angle (snd d1, fst d1) (snd d2, fst d2))),
          (node2, node1, residential (6371000 * central_angle (snd d1, fst d1) (snd d2, fst d2)))]"
  using assms by (simp add: connect_nodes_def haversine_distance_eq)

lemma connect_nodes_total:
  assumes "i1 < grid_size" "j1 < grid_size" "i2 < grid_size" "j2 < grid_size"
  shows "\<exists>r. connect_nodes (grid_nodes lat lon) (i1, j1) (i2, j2) = Inr r"
  using assms by (simp add: connect_nodes_def grid_nodes_inside haversine_distance_eq)

text \<open>An edge whose length is the great-circle distance of its ends.\<close>

lemma connect_nodes_accurate:
  assumes "connect_nodes ns node1 node2 = Inr r" "e \<in> set r"
  shows "\<exists>a b. ns (fst e) = Some a \<and> ns (fst (snd e)) = Some b \<and>
      haversine_distance (snd a, fst a) (snd b, fst b) = Inr (edge_length (snd (snd e)))"
proof -
  from assms(1) obtain d1 d2 where n: "ns node1 = Some d1" "ns node2 = Some d2"
    by (auto simp: connect_nodes_def split: option.splits)
  define d where "d = 6371000 * central_angle (snd d1, fst d1) (snd d2, fst d2)"
  have fwd: "haversine_distance (snd d1, fst d1) (snd d2, fst d2) = Inr d"
    by (simp add: haversine_distance_eq d_def)
  then have bwd: "haversine_distance (snd d2, fst d2) (snd d1, fst d1) = Inr d"
    by (simp add: haversine_distance_sym)
  from assms have "e = (node1, node2, residential d) \<or> e = (node2, node1, residential d)"
    unfolding connect_nodes_inside [OF n] d_def by auto
  then show ?thesis
  proof
    assume "e = (node1, node2, residential d)"
    with n fwd show ?thesis by (simp add: residential_def)
  next
    assume "e = (node2, node1, residential d)"
    with n bwd show ?thesis by (simp add: residential_def)
  qed
qed

lemma add_edges_accurate:
  assumes "\<forall>n \<in> set idx. fst n < grid_size \<and> snd n < grid_size"
    and "\<forall>e \<in> set es. P e"
    and "\<And>n1 n2 r e. connect_nodes (grid_nodes lat lon) n1 n2 = Inr r \<Longrightarrow> e \<in> set r \<Longrightarrow> P e"
  shows "\<exists>es'. add_edges (grid_nodes lat lon) idx es = Inr es' \<and> (\<forall>e \<in> set es'. P e)"
  using assms(1,2)
proof (induction idx arbitrary: es)
  case Nil
  then show ?case by simp
next
  case (Cons n idx)
  obtain i j where n: "n = (i, j)" by (cases n)
  with Cons.prems(1) have ij: "i < grid_size" "j < grid_size" by simp_all
  define right where "right = (if i < grid_size - 1
     then connect_nodes (grid_nodes lat lon) (i, j) (i + 1, j) else Inr [])"
  define bottom where "bottom = (if j < grid_size - 1
     then connect_nodes (grid_nodes lat lon) (i, j) (i, j + 1) else Inr [])"
  have "\<exists>r. right = Inr r \<and> (\<forall>e \<in> set r. P e)"
  proof (cases "i < grid_size - 1")
    case True
    then have "i + 1 < grid_size" by simp
    with ij obtain r where r: "connect_nodes (grid_nodes lat lon) (i, j) (i + 1, j) = Inr r"
      using connect_nodes_total by blast
    with assms(3) True show ?thesis by (auto simp: right_def)
  qed (simp add: right_def)
  then obtain r where r: "right = Inr r" "\<forall>e \<in> set r. P e" by blast
  have "\<exists>b. bottom = Inr b \<and> (\<forall>e \<in> set b. P e)"
  proof (cases "j < grid_size - 1")
    case True
    then have "j + 1 < grid_size" by simp
    with ij obtain b where "connect_nodes (grid_nodes lat lon) (i, j) (i, j + 1) = Inr b"
      using connect_nodes_total by blast
    with assms(3) True show ?thesis by (auto simp: bottom_def)
  qed (simp add: bottom_def)
  then obtain b where b: "bottom = Inr b" "\<forall>e \<in> set b. P e" by blast
  have step: "add_edges (grid_nodes lat lon) (n # idx) es =
      add_edges (grid_nodes lat lon) idx (es @ r @ b)"
    using r(1) b(1) by (simp add: n right_def bottom_def)
  from Cons.prems r(2) b(2) have "\<forall>e \<in> set (es @ r @ b). P e" by auto
  with Cons.IH [of "es @ r @ b"] Cons.prems(1) show ?case
    unfolding step by simp
qed




text \<open>\<^verbatim>\<open>_create_fallback_graph\<close> raises nothing, and every edge of its graph is as long as
  the great-circle distance of its ends.\<close>

lemma create_fallback_graph_accurate:
  "\<exists>es. create_fallback_graph lat lon = Inr \<lparr>nodes = grid_nodes lat lon, edges = es\<rparr> \<and>
     edges_span_great_circle \<lparr>nodes = grid_nodes lat lon, edges = es\<rparr>"
proof -
  let ?P = "\<lambda>e. \<exists>a b. grid_nodes lat lon (fst e) = Some a \<and>
      grid_nodes lat lon (fst (snd e)) = Some b \<and>
      haversine_distance (snd a, fst a) (snd b, fst b) = Inr (edge_length (snd (snd e)))"
  have "\<exists>es'. add_edges (grid_nodes lat lon) (List.product [0 ..< grid_size] [0 ..< grid_size]) []
      = Inr es' \<and> (\<forall>e \<in> set es'. ?P e)"
  proof (rule add_edges_accurate)
    show "\<forall>n \<in> set (List.product [0 ..< grid_size] [0 ..< grid_size]).
        fst n < grid_size \<and> snd n < grid_size" by auto
    show "\<forall>e \<in> set []. ?P e" by simp
    show "?P e" if "connect_nodes (grid_nodes lat lon) n1 n2 = Inr r" "e \<in> set r"
      for n1 n2 r e using that by (rule connect_nodes_accurate)
  qed
  then obtain es where es: "add_edges (grid_nodes lat lon)
      (List.product [0 ..< grid_size] [0 ..< grid_size]) [] = Inr es"
    and acc: "\<forall>e \<in> set es. ?P e" by blast
  from es have "create_fallback_graph lat lon = Inr \<lparr>nodes = grid_nodes lat lon, edges = es\<rparr>"
    by (simp add: create_fallback_graph_def Let_def)
  moreover from acc have "edges_span_great_circle \<lparr>nodes = grid_nodes lat lon, edges = es\<rparr>"
    by (fastforce simp: edges_span_great_circle_def osm_heuristic_def)
  ultimately show ?thesis by blast
qed


text \<open>So in every fallback graph the great-circle heuristic is at most the cost of every
  path, in both searches.\<close>

lemma fallback_graph_admissible:
  assumes "create_fallback_graph lat lon = Inr g" "is_path g u es v"
    "osm_heuristic g u v = Inr h" "path_cost es = Inr c"
  shows "h \<le> osm_path_cost es \<and> osm_path_cost es \<le> c"
proof -
  from create_fallback_graph_accurate [of lat lon] assms(1)
  have "edges_span_great_circle g" by auto
  then show ?thesis using assms(2-4) by (rule osm_heuristic_admissible)
qed

subsection \<open>An edge along the latitude of 60 degrees\<close>













end
